theory Spec2Isabelle
  imports Complex_Main
begin

text \<open>
  A model of \<open>02_update_media_metadata.py\<close>, the script that restores the capture time
  of exported photos and videos from the JSON sidecars of the export: the search for the
  sidecar of a media file (\<open>find_json_file\<close>), the rewrite of the embedded metadata
  (\<open>update_image_exif\<close>), the update of the file times (\<open>update_file_dates\<close>) and the
  processing of one entry with its statistics (\<open>process_media_file\<close>). Exceptions are
  values of a sum type, the processor object and the file system are passed explicitly,
  and every file-system operation is appended to a trace.
\<close>

section \<open>Strings and paths\<close>

text \<open>
  A Python \<open>str\<close> is modelled as a \<open>string\<close> whose characters are code points
  below 256, so that \<open>length\<close>, slicing and \<open>str.replace\<close> count what Python counts.
  A \<open>pathlib.Path\<close> is represented by its \<open>str()\<close>, which pathlib keeps normalised
  (POSIX flavour: components separated by single slashes, no trailing slash).
\<close>

type_synonym path = string

definition upper_char :: "char \<Rightarrow> char" where
  "upper_char c =
     (case map_of (zip ''abcdefghijklmnopqrstuvwxyz'' ''ABCDEFGHIJKLMNOPQRSTUVWXYZ'') c of
        None \<Rightarrow> c | Some u \<Rightarrow> u)"

definition lower_char :: "char \<Rightarrow> char" where
  "lower_char c =
     (case map_of (zip ''ABCDEFGHIJKLMNOPQRSTUVWXYZ'' ''abcdefghijklmnopqrstuvwxyz'') c of
        None \<Rightarrow> c | Some l \<Rightarrow> l)"

text \<open>\<open>str.upper()\<close> and \<open>str.lower()\<close>, as far as comparisons with ASCII literals see them.\<close>

definition upper :: "string \<Rightarrow> string" where
  "upper s = map upper_char s"

definition lower :: "string \<Rightarrow> string" where
  "lower s = map lower_char s"

definition starts_with :: "string \<Rightarrow> string \<Rightarrow> bool" where
  "starts_with s old = (take (length old) s = old)"

text \<open>
  \<open>s.replace(old, new)\<close>: every non-overlapping occurrence of \<open>old\<close>, scanning from the
  left. For an empty \<open>old\<close> Python inserts \<open>new\<close> before every character and at the end.
\<close>

fun replace_scan :: "string \<Rightarrow> string \<Rightarrow> string \<Rightarrow> string" where
  "replace_scan old new [] = []"
| "replace_scan old new (c # cs) =
     (if starts_with (c # cs) old
      then new @ replace_scan old new (drop (length old - 1) cs)
      else c # replace_scan old new cs)"

definition py_replace :: "string \<Rightarrow> string \<Rightarrow> string \<Rightarrow> string" where
  "py_replace s old new =
     (if old = [] then concat (map (\<lambda>c. new @ [c]) s) @ new else replace_scan old new s)"

text \<open>\<open>s.split('(')[0]\<close>: the text before the first opening parenthesis.\<close>

definition split_paren_first :: "string \<Rightarrow> string" where
  "split_paren_first s = takeWhile (\<lambda>c. c \<noteq> CHR ''('') s"

text \<open>\<open>Path.name\<close>: the final component.\<close>

definition path_name :: "path \<Rightarrow> string" where
  "path_name p = rev (takeWhile (\<lambda>c. c \<noteq> CHR ''/'') (rev p))"

text \<open>
  \<open>Path.suffix\<close>: with \<open>i = name.rfind('.')\<close>, the text \<open>name[i:]\<close> when
  \<open>0 < i < len(name) - 1\<close>, and the empty string otherwise.
\<close>

definition path_suffix :: "path \<Rightarrow> string" where
  "path_suffix p =
     (let name = path_name p;
          ext = rev (takeWhile (\<lambda>c. c \<noteq> CHR ''.'') (rev name))
      in if ext \<noteq> [] \<and> length ext + 1 < length name then CHR ''.'' # ext else [])"

definition path_stem :: "path \<Rightarrow> string" where
  "path_stem p = (let name = path_name p in take (length name - length (path_suffix p)) name)"

text \<open>\<open>str(Path.parent)\<close>: \<open>.\<close> for a bare name, \<open>/\<close> directly under the root.\<close>

definition path_parent :: "path \<Rightarrow> string" where
  "path_parent p =
     (let d = take (length p - length (path_name p)) p
      in if d = [] then ''.'' else if d = ''/'' then ''/'' else butlast d)"

text \<open>
  \<open>str(base_path.parent / base_path.stem)\<close>: the stem is joined below the parent;
  pathlib drops a component that is a single dot.
\<close>

definition parent_join_stem :: "path \<Rightarrow> string" where
  "parent_join_stem p =
     (if path_stem p = ''.'' then path_parent p
      else take (length p - length (path_name p)) p @ path_stem p)"

section \<open>Candidate sidecar names\<close>

text \<open>
  \<open>get_potential_json_names\<close>, the inner function of \<open>find_json_file\<close>. The list is
  built in the order of the source; the final loop appends, for \<open>i\<close> from 0 to 7, the
  name \<open>full_name[:-(i+1)]\<close> followed by \<open>.json\<close> (a slice that removes more characters
  than the string has is empty).
\<close>

definition get_potential_json_names :: "path \<Rightarrow> string list" where
  "get_potential_json_names base_path =
     (let suffix = path_suffix base_path;
          potential_names =
            [base_path @ ''.json'',
             py_replace base_path suffix [] @ ''.json''];
          potential_names =
            (if upper suffix = ''.MP4''
             then potential_names @
               [py_replace base_path suffix ''.HEIC'' @ ''.json'',
                py_replace base_path suffix ''.JPG'' @ ''.json'',
                split_paren_first (parent_join_stem base_path) @ ''.HEIC.json'',
                split_paren_first (parent_join_stem base_path) @ ''.JPG.json'']
             else potential_names);
          potential_names = potential_names @
               [split_paren_first (parent_join_stem base_path) @ suffix @ ''.json'',
                py_replace base_path (''-modifi'' @ [CHR 0xE9]) [] @ ''.json'',
                py_replace base_path ''-modified'' [] @ ''.json''];
          full_name = base_path
      in fold (\<lambda>i names. names @ [take (length full_name - (i + 1)) full_name @ ''.json''])
              [0..<8] potential_names)"

section \<open>Python values\<close>

datatype py_error =
  KeyError | TypeError | ValueError | OverflowError | AttributeError | OSError | StructError

text \<open>
  What \<open>json.load\<close> returns. A float is the real number the double stands for;
  the two non-finite literals the parser accepts are kept apart. An object is the list
  of its items, with distinct keys as in a Python \<open>dict\<close>.
\<close>

datatype json =
  JNull | JBool bool | JInt int | JFloat real | JNaN | JInf
  | JStr string | JArr "json list" | JObj "(string \<times> json) list"

text \<open>Subscription \<open>v[key]\<close> with a string key.\<close>

definition json_getitem :: "json \<Rightarrow> string \<Rightarrow> py_error + json" where
  "json_getitem v key =
     (case v of
        JObj items \<Rightarrow> (case map_of items key of None \<Rightarrow> Inl KeyError | Some x \<Rightarrow> Inr x)
      | _ \<Rightarrow> Inl TypeError)"

text \<open>\<open>v.get(key, default)\<close>, a method only dictionaries have.\<close>

definition json_get :: "json \<Rightarrow> string \<Rightarrow> json \<Rightarrow> py_error + json" where
  "json_get v key dflt =
     (case v of
        JObj items \<Rightarrow> (case map_of items key of None \<Rightarrow> Inr dflt | Some x \<Rightarrow> Inr x)
      | _ \<Rightarrow> Inl AttributeError)"

text \<open>\<open>int()\<close> of a float truncates towards zero.\<close>

definition py_trunc :: "real \<Rightarrow> int" where
  "py_trunc x = (if 0 \<le> x then \<lfloor>x\<rfloor> else \<lceil>x\<rceil>)"

text \<open>
  The characters \<open>int()\<close> skips around a number: the six ASCII blanks, and of the
  code points from 128 to 255 the two Unicode spaces, which the conversion turns into a
  blank first. The separators 0x1C to 0x1F are below 128, stay as they are and make the
  conversion fail.
\<close>

definition is_space :: "char \<Rightarrow> bool" where
  "is_space c = (c \<in> set ([CHR '' '', CHR 0x09, CHR 0x0A, CHR 0x0B, CHR 0x0C, CHR 0x0D,
                          CHR 0x85, CHR 0xA0]))"

definition digit_value :: "char \<Rightarrow> nat option" where
  "digit_value c = map_of (zip ''0123456789'' [0, 1, 2, 3, 4, 5, 6, 7, 8, 9]) c"

text \<open>
  Decimal digits, where single underscores may separate two digits.
\<close>

fun digits_value :: "string \<Rightarrow> nat \<Rightarrow> nat option" where
  "digits_value [] acc = Some acc"
| "digits_value (c # cs) acc =
     (if c = CHR ''_''
      then (case cs of
              [] \<Rightarrow> None
            | d # _ \<Rightarrow> (if digit_value d = None then None else digits_value cs acc))
      else (case digit_value c of
              None \<Rightarrow> None
            | Some v \<Rightarrow> digits_value cs (10 * acc + v)))"

text \<open>
  The default limit of Python 3.11 on a decimal string: more than 4300 digits (signs,
  underscores and blanks not counted) are refused.
\<close>

definition int_max_str_digits :: nat where
  "int_max_str_digits = 4300"

definition unsigned_of_string :: "string \<Rightarrow> nat option" where
  "unsigned_of_string s =
     (case s of
        [] \<Rightarrow> None
      | c # _ \<Rightarrow>
          (if digit_value c = None then None
           else if int_max_str_digits < length (filter (\<lambda>d. d \<noteq> CHR ''_'') s) then None
           else digits_value s 0))"

text \<open>\<open>int()\<close> of a string: surrounding whitespace, an optional sign, decimal digits.\<close>

definition int_of_string :: "string \<Rightarrow> py_error + int" where
  "int_of_string s =
     (let t = rev (dropWhile is_space (rev (dropWhile is_space s)))
      in case t of
           [] \<Rightarrow> Inl ValueError
         | c # cs \<Rightarrow>
             (if c = CHR ''-''
              then (case unsigned_of_string cs of
                      None \<Rightarrow> Inl ValueError | Some n \<Rightarrow> Inr (- int n))
              else if c = CHR ''+''
              then (case unsigned_of_string cs of
                      None \<Rightarrow> Inl ValueError | Some n \<Rightarrow> Inr (int n))
              else (case unsigned_of_string t of
                      None \<Rightarrow> Inl ValueError | Some n \<Rightarrow> Inr (int n))))"

definition py_int :: "json \<Rightarrow> py_error + int" where
  "py_int v =
     (case v of
        JInt i \<Rightarrow> Inr i
      | JBool b \<Rightarrow> Inr (if b then 1 else 0)
      | JFloat x \<Rightarrow> Inr (py_trunc x)
      | JNaN \<Rightarrow> Inl ValueError
      | JInf \<Rightarrow> Inl OverflowError
      | JStr s \<Rightarrow> int_of_string s
      | _ \<Rightarrow> Inl TypeError)"

text \<open>\<open>int(json_data['photoTakenTime']['timestamp'])\<close>\<close>

definition get_timestamp :: "json \<Rightarrow> py_error + int" where
  "get_timestamp json_data =
     (case json_getitem json_data ''photoTakenTime'' of
        Inl e \<Rightarrow> Inl e
      | Inr taken \<Rightarrow>
          (case json_getitem taken ''timestamp'' of
             Inl e \<Rightarrow> Inl e
           | Inr t \<Rightarrow> py_int t))"

section \<open>Floating-point arithmetic\<close>

text \<open>
  A Python float is an IEEE binary64 number. Each arithmetic operation returns the exact
  result rounded to 53 significant bits, ties to even. The values met in the coordinate
  conversion stay far from the overflow threshold, and a multiple of a subnormal step
  that lies below the normal range has fewer than 53 significant bits, so rounding to 53
  bits is all that happens there.
\<close>

fun bit_length :: "nat \<Rightarrow> nat" where
  "bit_length n = (if n = 0 then 0 else Suc (bit_length (n div 2)))"

declare bit_length.simps [simp del]

text \<open>The exponent \<open>e\<close> with \<open>2 ^ e \<le> x < 2 ^ (e + 1)\<close>, for positive \<open>x\<close>.\<close>

definition floor_log2 :: "real \<Rightarrow> int" where
  "floor_log2 x =
     (if 1 \<le> x then int (bit_length (nat \<lfloor>x\<rfloor>)) - 1
      else - int (bit_length (nat \<lceil>1 / x\<rceil> - 1)))"

definition pow2 :: "int \<Rightarrow> real" where
  "pow2 e = (if 0 \<le> e then 2 ^ nat e else 1 / 2 ^ nat (- e))"

definition round_half_even :: "real \<Rightarrow> int" where
  "round_half_even q =
     (let f = \<lfloor>q\<rfloor>; d = q - of_int f
      in if d < 1 / 2 then f
         else if 1 / 2 < d then f + 1
         else if even f then f else f + 1)"

definition round_double :: "real \<Rightarrow> real" where
  "round_double x =
     (if x = 0 then 0
      else let a = \<bar>x\<bar>;
               ulp = pow2 (floor_log2 a - 52)
           in sgn x * of_int (round_half_even (a / ulp)) * ulp)"

definition float_sub :: "real \<Rightarrow> real \<Rightarrow> real" where
  "float_sub x y = round_double (x - y)"

definition float_mul :: "real \<Rightarrow> real \<Rightarrow> real" where
  "float_mul x y = round_double (x * y)"

section \<open>Coordinates\<close>

text \<open>
  \<open>convert_to_degrees\<close>: \<open>int()\<close> truncates, subtraction and multiplication are float
  operations. An integer argument gives the same triple through integer arithmetic.
\<close>

definition convert_to_degrees :: "real \<Rightarrow> (int \<times> int) \<times> (int \<times> int) \<times> (int \<times> int)" where
  "convert_to_degrees v =
     (let d = py_trunc v;
          m = py_trunc (float_mul (float_sub v (of_int d)) 60);
          s = py_trunc (float_mul (float_sub (float_mul (float_sub v (of_int d)) 60) (of_int m)) 60)
      in ((d, 1), (m, 1), (s, 1)))"

datatype exif_tag =
  DateTimeOriginal | DateTimeDigitized
  | SubSecTime | SubSecTimeOriginal | SubSecTimeDigitized
  | OffsetTime | OffsetTimeOriginal | OffsetTimeDigitized
  | GPSLatitudeRef | GPSLatitude | GPSLongitudeRef | GPSLongitude
  | OtherTag string nat

datatype exif_value =
  Ascii string
  | Rational3 "(int \<times> int) \<times> (int \<times> int) \<times> (int \<times> int)"
  | Short nat

type_synonym exif_block = "exif_tag \<Rightarrow> exif_value option"

text \<open>
  The number behind a coordinate, as \<open>abs()\<close> and \<open>int()\<close> see it: \<open>abs\<close> rejects what
  is not a number, \<open>int\<close> rejects the non-finite floats.
\<close>

definition py_number :: "json \<Rightarrow> py_error + real" where
  "py_number v =
     (case v of
        JInt i \<Rightarrow> Inr (of_int i)
      | JBool b \<Rightarrow> Inr (if b then 1 else 0)
      | JFloat x \<Rightarrow> Inr x
      | JNaN \<Rightarrow> Inl ValueError
      | JInf \<Rightarrow> Inl OverflowError
      | _ \<Rightarrow> Inl TypeError)"

text \<open>\<open>v != 0\<close>, which never raises.\<close>

definition py_ne_zero :: "json \<Rightarrow> bool" where
  "py_ne_zero v =
     (case v of
        JInt i \<Rightarrow> i \<noteq> 0
      | JBool b \<Rightarrow> b
      | JFloat x \<Rightarrow> x \<noteq> 0
      | _ \<Rightarrow> True)"

definition create_gps_dict :: "json \<Rightarrow> json \<Rightarrow> py_error + exif_block" where
  "create_gps_dict lat lon =
     (case py_number lat of
        Inl e \<Rightarrow> Inl e
      | Inr lat_v \<Rightarrow>
          (case py_number lon of
             Inl e \<Rightarrow> Inl e
           | Inr lon_v \<Rightarrow>
               (let lat_deg = convert_to_degrees \<bar>lat_v\<bar>;
                    lon_deg = convert_to_degrees \<bar>lon_v\<bar>
                in Inr [GPSLatitudeRef \<mapsto> Ascii (if 0 \<le> lat_v then ''N'' else ''S''),
                        GPSLatitude \<mapsto> Rational3 lat_deg,
                        GPSLongitudeRef \<mapsto> Ascii (if 0 \<le> lon_v then ''E'' else ''W''),
                        GPSLongitude \<mapsto> Rational3 lon_deg])))"

section \<open>The file system\<close>

text \<open>
  A media file as the program can observe and change it: its two timestamps (whole
  seconds), its embedded metadata block, its image data, and what the environment lets
  the process do with it: whether Pillow can decode it, whether it can be written, for
  which times \<open>os.utime\<close> succeeds with the file system holding the time as given, and
  whether \<open>touch\<close> succeeds.
\<close>

record file_state =
  atime :: int
  mtime :: int
  exif :: exif_block
  pixels :: "nat list"
  decodable :: bool
  writable :: bool
  utime_ok :: "int \<Rightarrow> bool"
  touch_ok :: bool

datatype fs_op =
  Exists path | Rglob path | ReadJson path
  | OpenImage path | SaveImage path | Utime path int | Touch path

text \<open>
  The world outside the process: what \<open>Path(p).exists()\<close> gives (in Python 3.11 it
  answers \<open>False\<close> for a missing or unreachable path and raises the \<open>OSError\<close> of any
  other failure, a name longer than the file system allows for one), what
  \<open>work_dir.rglob('*.json')\<close>
  yields and in which order, what \<open>json.load\<close> makes of a file, the media files, the
  clock, the local-time formatting of an epoch second (\<open>datetime.fromtimestamp\<close> raises
  outside the platform's range), what the image encoder does to image data of a given
  extension, which block a container without an EXIF segment of its own ends up with,
  and the trace of file-system operations performed so far.
\<close>

record world =
  path_exists :: "path \<Rightarrow> py_error + bool"
  rglob_json :: "path list"
  json_files :: "path \<Rightarrow> py_error + json"
  media :: "path \<Rightarrow> file_state option"
  clock :: "nat \<Rightarrow> int"
  local_time :: "int \<Rightarrow> py_error + string"
  reencode :: "string \<Rightarrow> nat list \<Rightarrow> nat list"
  other_container_block :: "string \<Rightarrow> exif_block \<Rightarrow> exif_block \<Rightarrow> exif_block"
  trace :: "fs_op list"

definition log_op :: "world \<Rightarrow> fs_op \<Rightarrow> world" where
  "log_op w opn = w\<lparr>trace := trace w @ [opn]\<rparr>"

definition now :: "world \<Rightarrow> int" where
  "now w = clock w (length (trace w))"

text \<open>\<open>os.utime(file_path, (timestamp, timestamp))\<close>\<close>

definition os_utime :: "world \<Rightarrow> path \<Rightarrow> int \<Rightarrow> (py_error + unit) \<times> world" where
  "os_utime w file_path timestamp =
     (let w1 = log_op w (Utime file_path timestamp)
      in case media w file_path of
           None \<Rightarrow> (Inl OSError, w1)
         | Some f \<Rightarrow>
             (if utime_ok f timestamp
              then (Inr (), w1\<lparr>media := (media w1)(file_path \<mapsto>
                                   f\<lparr>atime := timestamp, mtime := timestamp\<rparr>)\<rparr>)
              else (Inl OSError, w1)))"

text \<open>\<open>Path(file_path).touch(exist_ok=True)\<close>: a missing file is created empty.\<close>

definition path_touch :: "world \<Rightarrow> path \<Rightarrow> (py_error + unit) \<times> world" where
  "path_touch w file_path =
     (let w1 = log_op w (Touch file_path)
      in case media w file_path of
           None \<Rightarrow>
             (Inr (), w1\<lparr>media := (media w1)(file_path \<mapsto>
                 \<lparr>atime = now w1, mtime = now w1, exif = Map.empty, pixels = [],
                  decodable = False, writable = True, utime_ok = (\<lambda>_. True),
                  touch_ok = True\<rparr>)\<rparr>)
         | Some f \<Rightarrow>
             (if touch_ok f
              then (Inr (), w1\<lparr>media := (media w1)(file_path \<mapsto>
                                   f\<lparr>atime := now w1, mtime := now w1\<rparr>)\<rparr>)
              else (Inl OSError, w1)))"

text \<open>
  Containers whose writer embeds the block passed as \<open>exif=\<close> in place of any block the
  file had before.
\<close>

definition EXIF_CONTAINERS :: "string set" where
  "EXIF_CONTAINERS = {''.jpg'', ''.jpeg'', ''.png'', ''.webp''}"

text \<open>
  \<open>with Image.open(image_path) as img: img.save(image_path, exif=exif_bytes)\<close>.
  Opening fails on a missing or undecodable file, saving on a file that cannot be
  written; both failures leave the file as it was. A successful save writes the image
  anew: re-encoded image data, the given block, a fresh modification time.
\<close>

definition image_save :: "world \<Rightarrow> path \<Rightarrow> exif_block \<Rightarrow> (py_error + unit) \<times> world" where
  "image_save w image_path exif_bytes =
     (let w1 = log_op w (OpenImage image_path)
      in case media w image_path of
           None \<Rightarrow> (Inl OSError, w1)
         | Some f \<Rightarrow>
             (if \<not> decodable f then (Inl OSError, w1)
              else let w2 = log_op w1 (SaveImage image_path)
                   in if \<not> writable f then (Inl OSError, w2)
                      else (Inr (), w2\<lparr>media := (media w2)(image_path \<mapsto>
                              f\<lparr>exif :=
                                   (if lower (path_suffix image_path) \<in> EXIF_CONTAINERS
                                    then exif_bytes
                                    else other_container_block w
                                           (lower (path_suffix image_path)) (exif f) exif_bytes),
                                 pixels := reencode w (lower (path_suffix image_path)) (pixels f),
                                 mtime := now w2\<rparr>)\<rparr>)))"

section \<open>The media processor\<close>

definition IMAGE_FORMATS :: "string set" where
  "IMAGE_FORMATS =
     {''.jpg'', ''.jpeg'', ''.png'', ''.heic'', ''.gif'', ''.bmp'', ''.tiff'', ''.tif'', ''.webp''}"

definition VIDEO_FORMATS :: "string set" where
  "VIDEO_FORMATS = {''.mp4'', ''.mov'', ''.avi'', ''.mkv'', ''.m4v''}"

definition ALL_FORMATS :: "string set" where
  "ALL_FORMATS = lower ` (IMAGE_FORMATS \<union> VIDEO_FORMATS)"

record run_stats =
  success :: nat
  warnings :: nat
  json_not_found :: nat
  ignored_with_exif :: nat
  json_found_in_other_dir :: nat

record media_processor =
  work_dir :: path
  dry_run :: bool
  stats :: run_stats
  files_without_json :: "path list"
  files_with_warnings :: "(path \<times> py_error) list"

text \<open>\<open>MediaProcessor.__init__\<close>\<close>

definition init_processor :: "path \<Rightarrow> bool \<Rightarrow> media_processor" where
  "init_processor wd dry =
     \<lparr>work_dir = wd, dry_run = dry,
      stats = \<lparr>success = 0, warnings = 0, json_not_found = 0, ignored_with_exif = 0,
               json_found_in_other_dir = 0\<rparr>,
      files_without_json = [], files_with_warnings = []\<rparr>"

subsection \<open>Locating the sidecar\<close>

text \<open>
  Step 1 of \<open>find_json_file\<close>: the first candidate that exists is returned. An
  existence check that raises ends the loop with its error.
\<close>

fun probe_candidates :: "world \<Rightarrow> string list \<Rightarrow> (py_error + path option) \<times> world" where
  "probe_candidates w [] = (Inr None, w)"
| "probe_candidates w (json_path # rest) =
     (case path_exists w json_path of
        Inl e \<Rightarrow> (Inl e, log_op w (Exists json_path))
      | Inr found \<Rightarrow>
          (if found then (Inr (Some json_path), log_op w (Exists json_path))
           else probe_candidates (log_op w (Exists json_path)) rest))"

text \<open>Step 2: the first file of the tree walk whose name is the name of a candidate.\<close>

fun scan_tree :: "string list \<Rightarrow> path list \<Rightarrow> path option" where
  "scan_tree names [] = None"
| "scan_tree names (json_candidate # rest) =
     (if path_name json_candidate \<in> set names then Some json_candidate
      else scan_tree names rest)"

text \<open>
  \<open>find_json_file\<close> catches nothing: an error of an existence check is its own result.
\<close>

definition find_json_file ::
  "media_processor \<Rightarrow> world \<Rightarrow> path
     \<Rightarrow> (py_error + path option) \<times> media_processor \<times> world" where
  "find_json_file self w media_path =
     (case probe_candidates w (get_potential_json_names media_path) of
        (Inl e, w1) \<Rightarrow> (Inl e, self, w1)
      | (Inr (Some json_path), w1) \<Rightarrow> (Inr (Some json_path), self, w1)
      | (Inr None, w1) \<Rightarrow>
          (let w2 = log_op w1 (Rglob (work_dir self))
           in case scan_tree (map path_name (get_potential_json_names media_path))
                             (rglob_json w2) of
                Some json_candidate \<Rightarrow>
                  (Inr (Some json_candidate),
                   self\<lparr>stats := (stats self)\<lparr>json_found_in_other_dir :=
                                     json_found_in_other_dir (stats self) + 1\<rparr>\<rparr>,
                   w2)
              | None \<Rightarrow> (Inr None, self, w2)))"

subsection \<open>Applying the sidecar\<close>

definition update_file_dates ::
  "media_processor \<Rightarrow> world \<Rightarrow> path \<Rightarrow> int \<Rightarrow> (py_error + unit) \<times> world" where
  "update_file_dates self w file_path timestamp =
     (if dry_run self
      then (case local_time w timestamp of
              Inl e \<Rightarrow> (Inl e, w)
            | Inr newdate_modified \<Rightarrow> (Inr (), w))
      else (case os_utime w file_path timestamp of
              (Inl e, w1) \<Rightarrow> (Inl e, w1)
            | (Inr _, w1) \<Rightarrow>
                (case path_touch w1 file_path of
                   (Inl e, w2) \<Rightarrow> (Inl e, w2)
                 | (Inr _, w2) \<Rightarrow> os_utime w2 file_path timestamp)))"

text \<open>\<open>piexif.dump\<close> packs every rational component as an unsigned 32-bit number.\<close>

definition fits_u32 :: "exif_value option \<Rightarrow> bool" where
  "fits_u32 v =
     (case v of
        Some (Rational3 ((a, _), (b, _), (c, _))) \<Rightarrow>
          0 \<le> a \<and> a < 2 ^ 32 \<and> 0 \<le> b \<and> b < 2 ^ 32 \<and> 0 \<le> c \<and> c < 2 ^ 32
      | _ \<Rightarrow> True)"

definition piexif_dump :: "exif_block \<Rightarrow> py_error + exif_block" where
  "piexif_dump exif_dict =
     (if fits_u32 (exif_dict GPSLatitude) \<and> fits_u32 (exif_dict GPSLongitude)
      then Inr exif_dict else Inl StructError)"

text \<open>The block \<open>update_image_exif\<close> starts from: empty 0th and GPS parts, eight Exif tags.\<close>

definition base_exif_dict :: "string \<Rightarrow> exif_block" where
  "base_exif_dict date_time =
     [DateTimeOriginal \<mapsto> Ascii date_time,
      DateTimeDigitized \<mapsto> Ascii date_time,
      SubSecTime \<mapsto> Ascii ''00'',
      SubSecTimeOriginal \<mapsto> Ascii ''00'',
      SubSecTimeDigitized \<mapsto> Ascii ''00'',
      OffsetTime \<mapsto> Ascii ''+00:00'',
      OffsetTimeOriginal \<mapsto> Ascii ''+00:00'',
      OffsetTimeDigitized \<mapsto> Ascii ''+00:00'']"

text \<open>
  The block and its serialisation, from \<open>exif_dict = ...\<close> to \<open>piexif.dump(exif_dict)\<close>:
  the GPS part is filled in only when latitude and longitude both differ from zero.
\<close>

definition build_exif_bytes :: "string \<Rightarrow> json \<Rightarrow> py_error + exif_block" where
  "build_exif_bytes date_time json_data =
     (case json_get json_data ''geoDataExif'' (JObj []) of
        Inl e \<Rightarrow> Inl e
      | Inr gps_data \<Rightarrow>
     (case json_get gps_data ''latitude'' (JInt 0) of
        Inl e \<Rightarrow> Inl e
      | Inr lat \<Rightarrow>
     (case json_get gps_data ''longitude'' (JInt 0) of
        Inl e \<Rightarrow> Inl e
      | Inr lon \<Rightarrow>
     (case (if py_ne_zero lat \<and> py_ne_zero lon then create_gps_dict lat lon
            else Inr Map.empty) of
        Inl e \<Rightarrow> Inl e
      | Inr gps \<Rightarrow> piexif_dump (base_exif_dict date_time ++ gps)))))"

text \<open>The \<open>try\<close> block of \<open>update_image_exif\<close>.\<close>

definition update_image_exif_body ::
  "media_processor \<Rightarrow> world \<Rightarrow> path \<Rightarrow> json \<Rightarrow> (py_error + unit) \<times> world" where
  "update_image_exif_body self w image_path json_data =
     (case get_timestamp json_data of
        Inl e \<Rightarrow> (Inl e, w)
      | Inr timestamp \<Rightarrow>
     (case local_time w timestamp of
        Inl e \<Rightarrow> (Inl e, w)
      | Inr date_time \<Rightarrow>
     (if dry_run self then (Inr (), w)
      else
     (case build_exif_bytes date_time json_data of
        Inl e \<Rightarrow> (Inl e, w)
      | Inr exif_bytes \<Rightarrow> image_save w image_path exif_bytes))))"

definition record_warning :: "media_processor \<Rightarrow> path \<Rightarrow> py_error \<Rightarrow> media_processor" where
  "record_warning self file_path e =
     self\<lparr>stats := (stats self)\<lparr>warnings := warnings (stats self) + 1\<rparr>,
          files_with_warnings := files_with_warnings self @ [(file_path, e)]\<rparr>"

definition update_image_exif ::
  "media_processor \<Rightarrow> world \<Rightarrow> path \<Rightarrow> json \<Rightarrow> media_processor \<times> world" where
  "update_image_exif self w image_path json_data =
     (if lower (path_suffix image_path) \<notin> IMAGE_FORMATS then (self, w)
      else (case update_image_exif_body self w image_path json_data of
              (Inr _, w1) \<Rightarrow> (self, w1)
            | (Inl e, w1) \<Rightarrow> (record_warning self image_path e, w1)))"

text \<open>The \<open>try\<close> block of \<open>process_media_file\<close>, entered once a sidecar is located.\<close>

definition process_media_file_body ::
  "media_processor \<Rightarrow> world \<Rightarrow> path \<Rightarrow> path \<Rightarrow> (py_error + unit) \<times> media_processor \<times> world" where
  "process_media_file_body self w media_path json_path =
     (let w1 = log_op w (ReadJson json_path)
      in case json_files w1 json_path of
           Inl e \<Rightarrow> (Inl e, self, w1)
         | Inr json_data \<Rightarrow>
             (let (self2, w2) =
                    (if lower (path_suffix media_path) \<in> IMAGE_FORMATS
                        \<and> lower (path_suffix media_path) \<noteq> ''.heic''
                     then update_image_exif self w1 media_path json_data
                     else (self, w1))
              in case get_timestamp json_data of
                   Inl e \<Rightarrow> (Inl e, self2, w2)
                 | Inr timestamp \<Rightarrow>
                     (case update_file_dates self2 w2 media_path timestamp of
                        (Inl e, w3) \<Rightarrow> (Inl e, self2, w3)
                      | (Inr _, w3) \<Rightarrow>
                          (case local_time w3 timestamp of
                             Inl e \<Rightarrow> (Inl e, self2, w3)
                           | Inr newdate \<Rightarrow>
                               (Inr (),
                                self2\<lparr>stats := (stats self2)\<lparr>success :=
                                                   success (stats self2) + 1\<rparr>\<rparr>,
                                w3)))))"

text \<open>
  The whole \<open>try ... except Exception\<close> statement of \<open>process_media_file\<close>: what is done
  with a media file and the sidecar located for it.
\<close>

definition process_media_file_try ::
  "media_processor \<Rightarrow> world \<Rightarrow> path \<Rightarrow> path \<Rightarrow> media_processor \<times> world" where
  "process_media_file_try self w media_path json_path =
     (case process_media_file_body self w media_path json_path of
        (Inr _, self2, w2) \<Rightarrow> (self2, w2)
      | (Inl e, self2, w2) \<Rightarrow> (record_warning self2 media_path e, w2))"

text \<open>
  \<open>process_media_file\<close>. The call of \<open>find_json_file\<close> stands before the \<open>try\<close>
  statement, so an error raised there leaves the function (\<open>Inl\<close>); otherwise the
  function returns (\<open>Inr\<close>).
\<close>

definition process_media_file ::
  "media_processor \<Rightarrow> world \<Rightarrow> path \<Rightarrow> (py_error + unit) \<times> media_processor \<times> world" where
  "process_media_file self w media_path =
     (case find_json_file self w media_path of
        (Inl e, self1, w1) \<Rightarrow> (Inl e, self1, w1)
      | (Inr None, self1, w1) \<Rightarrow>
          (Inr (),
           self1\<lparr>stats := (stats self1)\<lparr>json_not_found := json_not_found (stats self1) + 1\<rparr>,
                 files_without_json := files_without_json self1 @ [media_path]\<rparr>,
           w1)
      | (Inr (Some json_path), self1, w1) \<Rightarrow>
          (case process_media_file_try self1 w1 media_path json_path of
             (self2, w2) \<Rightarrow> (Inr (), self2, w2)))"

section \<open>Notions used in the statements\<close>

text \<open>
  The candidates that precede the truncation loop in \<open>get_potential_json_names\<close>, in
  their order: the exact name, the name without its extension, the four live-photo
  names (for an MP4 extension only), the name without duplicate marker, and the two
  names without an editing suffix.
\<close>

definition direct_names :: "path \<Rightarrow> string list" where
  "direct_names base_path =
     [base_path @ ''.json'',
      py_replace base_path (path_suffix base_path) [] @ ''.json''] @
     (if upper (path_suffix base_path) = ''.MP4''
      then [py_replace base_path (path_suffix base_path) ''.HEIC'' @ ''.json'',
            py_replace base_path (path_suffix base_path) ''.JPG'' @ ''.json'',
            split_paren_first (parent_join_stem base_path) @ ''.HEIC.json'',
            split_paren_first (parent_join_stem base_path) @ ''.JPG.json'']
      else []) @
     [split_paren_first (parent_join_stem base_path) @ path_suffix base_path @ ''.json'',
      py_replace base_path (''-modifi'' @ [CHR 0xE9]) [] @ ''.json'',
      py_replace base_path ''-modified'' [] @ ''.json'']"

text \<open>The candidate with \<open>n\<close> trailing characters of the path removed.\<close>

definition truncated_name :: "path \<Rightarrow> nat \<Rightarrow> string" where
  "truncated_name full_name n = take (length full_name - n) full_name @ ''.json''"

section \<open>Example inputs\<close>

definition empty_world :: world where
  "empty_world =
     \<lparr>path_exists = (\<lambda>_. Inr False), rglob_json = [], json_files = (\<lambda>_. Inl OSError),
      media = (\<lambda>_. None), clock = (\<lambda>_. 0), local_time = (\<lambda>_. Inl OverflowError),
      reencode = (\<lambda>_ px. px), other_container_block = (\<lambda>_ old new. Map.empty),
      trace = []\<rparr>"

text \<open>A photo next to its sidecar, as the export tool names it.\<close>

definition exact_world :: world where
  "exact_world =
     empty_world\<lparr>path_exists := (\<lambda>p. Inr (p = ''w/IMG_01.JPG.json'')),
                 rglob_json := [''w/IMG_01.JPG.json'']\<rparr>"

text \<open>A photo whose sidecar name was cut, with two cut names on disk.\<close>

definition truncation_world :: world where
  "truncation_world =
     empty_world\<lparr>path_exists :=
                   (\<lambda>p. Inr (p \<in> set [''w/IMG_0001.jp.json'', ''w/IMG_0001.j.json''])),
                 rglob_json := [''w/IMG_0001.j.json'', ''w/IMG_0001.jp.json'']\<rparr>"

text \<open>
  A duplicate photo with two sidecars on disk: the one of the original photo and one
  with a cut name.
\<close>

definition duplicate_world :: world where
  "duplicate_world =
     empty_world\<lparr>path_exists :=
                   (\<lambda>p. Inr (p \<in> set [''w/IMG.jpg.json'', ''w/IMG(1).jp.json''])),
                 rglob_json := [''w/IMG(1).jp.json'', ''w/IMG.jpg.json'']\<rparr>"

text \<open>A photo whose only sidecar has three characters cut.\<close>

definition cut3_world :: world where
  "cut3_world =
     empty_world\<lparr>path_exists := (\<lambda>p. Inr (p = ''w/IMG_0002..json'')),
                 rglob_json := [''w/IMG_0002..json'']\<rparr>"

text \<open>
  A live-photo video whose name holds its extension twice, next to the sidecar of the
  still image.
\<close>

definition live_photo_world :: world where
  "live_photo_world =
     empty_world\<lparr>path_exists := (\<lambda>p. Inr (p = ''w/v.mp4(1).HEIC.json'')),
                 rglob_json := [''w/v.mp4(1).HEIC.json'']\<rparr>"

text \<open>
  The export of one photo: \<open>IMG_01.JPG\<close> with camera tags, and its sidecar with the
  capture time 2021-01-01 00:00:00 UTC and no position. The process runs in UTC.
\<close>

definition sidecar_json :: json where
  "sidecar_json =
     JObj [(''title'', JStr ''IMG_01.JPG''),
           (''photoTakenTime'',
              JObj [(''timestamp'', JStr ''1609459200''),
                    (''formatted'', JStr ''1 Jan 2021, 00:00:00 UTC'')]),
           (''geoDataExif'',
              JObj [(''latitude'', JFloat 0), (''longitude'', JFloat 0),
                    (''altitude'', JFloat 0)])]"

definition camera_file :: file_state where
  "camera_file =
     \<lparr>atime = 1700000000, mtime = 1700000000,
      exif = [OtherTag ''0th'' 272 \<mapsto> Ascii ''Canon EOS 80D'', OtherTag ''0th'' 274 \<mapsto> Short 6],
      pixels = [12, 200, 7], decodable = True, writable = True,
      utime_ok = (\<lambda>_. True), touch_ok = True\<rparr>"

definition takeout_world :: world where
  "takeout_world =
     empty_world\<lparr>path_exists := (\<lambda>p. Inr (p = ''w/IMG_01.JPG.json'')),
                 rglob_json := [''w/IMG_01.JPG.json''],
                 json_files := (\<lambda>p. if p = ''w/IMG_01.JPG.json'' then Inr sidecar_json
                                     else Inl OSError),
                 media := [''w/IMG_01.JPG'' \<mapsto> camera_file],
                 clock := (\<lambda>_. 1762250000),
                 local_time := (\<lambda>t. if t = 1609459200 then Inr ''2021:01:01 00:00:00''
                                     else Inl OverflowError)\<rparr>"

text \<open>The same export with an image file that cannot be decoded.\<close>

definition corrupt_world :: world where
  "corrupt_world =
     takeout_world\<lparr>media := [''w/IMG_01.JPG'' \<mapsto> camera_file\<lparr>decodable := False\<rparr>]\<rparr>"

text \<open>The same export with an image file that cannot be written.\<close>

definition readonly_world :: world where
  "readonly_world =
     takeout_world\<lparr>media := [''w/IMG_01.JPG'' \<mapsto> camera_file\<lparr>writable := False\<rparr>]\<rparr>"

text \<open>The same export with a sidecar that lacks the timestamp.\<close>

definition malformed_json :: json where
  "malformed_json =
     JObj [(''title'', JStr ''IMG_01.JPG''),
           (''photoTakenTime'', JObj [(''formatted'', JStr ''1 Jan 2021, 00:00:00 UTC'')])]"

definition malformed_world :: world where
  "malformed_world =
     takeout_world\<lparr>json_files := (\<lambda>p. if p = ''w/IMG_01.JPG.json'' then Inr malformed_json
                                       else Inl OSError)\<rparr>"

text \<open>
  A photo with a name of 251 characters in a file system that holds names of up to 255
  bytes: the exact sidecar name is too long to exist, the name cut by one character
  fits and is on disk.
\<close>

definition long_name :: path where
  "long_name = ''w/'' @ replicate 247 (CHR ''a'') @ ''.jpg''"

definition long_name_world :: world where
  "long_name_world =
     empty_world\<lparr>path_exists :=
                   (\<lambda>p. if 255 < length (path_name p) then Inl OSError
                        else Inr (p = ''w/'' @ replicate 247 (CHR ''a'') @ ''.jp.json'')),
                 rglob_json := [''w/'' @ replicate 247 (CHR ''a'') @ ''.jp.json'']\<rparr>"

text \<open>The export of one photo whose sidecar lies in another directory.\<close>

definition elsewhere_world :: world where
  "elsewhere_world =
     takeout_world\<lparr>path_exists := (\<lambda>p. Inr (p = ''w/b/IMG_01.JPG.json'')),
                   rglob_json := [''w/b/IMG_01.JPG.json''],
                   json_files := (\<lambda>p. if p = ''w/b/IMG_01.JPG.json'' then Inr sidecar_json
                                       else Inl OSError),
                   media := [''w/a/IMG_01.JPG'' \<mapsto> camera_file]\<rparr>"

section \<open>The sidecar locator\<close>

lemma fold_append_each: "fold (\<lambda>i names. names @ [f i]) xs init = init @ map f xs"
  by (induction xs arbitrary: init) simp_all

lemma names_decomposed:
  "get_potential_json_names p = direct_names p @ map (\<lambda>i. truncated_name p (i + 1)) [0..<8]"
  by (simp add: get_potential_json_names_def direct_names_def truncated_name_def Let_def
      fold_append_each del: upt_Suc)

lemma names_head: "get_potential_json_names p = (p @ ''.json'') # tl (get_potential_json_names p)"
  by (simp add: names_decomposed direct_names_def)

lemma path_exists_log_op [simp]: "path_exists (log_op w x) = path_exists w"
  by (simp add: log_op_def)

lemma probe_skip_absent:
  "\<forall>c \<in> set xs. path_exists w c = Inr False \<Longrightarrow>
   probe_candidates w (xs @ ys) = probe_candidates (w\<lparr>trace := trace w @ map Exists xs\<rparr>) ys"
proof (induction xs arbitrary: w)
  case Nil
  then show ?case by simp
next
  case (Cons x xs)
  then show ?case by (simp add: log_op_def)
qed

lemma probe_first_present:
  assumes "\<forall>c \<in> set xs. path_exists w c = Inr False" and "path_exists w c = Inr True"
  shows "probe_candidates w (xs @ c # ys) =
           (Inr (Some c), w\<lparr>trace := trace w @ map Exists (xs @ [c])\<rparr>)"
  using assms by (simp add: probe_skip_absent log_op_def)

lemma upt_split_at:
  assumes "a \<le> n" and "n < b"
  shows "[a..<b] = [a..<n] @ n # [Suc n..<b]"
proof -
  obtain k where b: "b = n + k"
    using assms(2) by (auto dest: less_imp_add_positive)
  have "[a..<n + k] = [a..<n] @ [n..<n + k]"
    by (rule upt_add_eq_append [OF assms(1)])
  moreover have "[n..<b] = n # [Suc n..<b]"
    by (rule upt_conv_Cons [OF assms(2)])
  ultimately show ?thesis
    by (simp only: b)
qed

lemma probe_exact:
  "path_exists w (p @ ''.json'') = Inr True \<Longrightarrow>
   probe_candidates w (get_potential_json_names p) =
     (Inr (Some (p @ ''.json'')), log_op w (Exists (p @ ''.json'')))"
  by (subst names_head) simp

text \<open>
  C8. When the sidecar named exactly like the media file plus \<open>.json\<close> exists,
  \<open>find_json_file\<close> returns it, leaves the processor (its statistics included) as it
  was, and the only file-system operation it performs is the existence check of that
  name: the tree-wide scan does not run.
\<close>

theorem exact_sidecar_found:
  assumes "path_exists w (media_path @ ''.json'') = Inr True"
  shows "find_json_file self w media_path =
           (Inr (Some (media_path @ ''.json'')), self,
            log_op w (Exists (media_path @ ''.json'')))"
  using probe_exact [OF assms] by (simp add: find_json_file_def)

theorem exact_sidecar_found_witness:
  "path_exists exact_world (''w/IMG_01.JPG'' @ ''.json'') = Inr True
   \<and> find_json_file (init_processor ''w'' False) exact_world ''w/IMG_01.JPG'' =
       (Inr (Some ''w/IMG_01.JPG.json''), init_processor ''w'' False,
        log_op exact_world (Exists ''w/IMG_01.JPG.json''))
   \<and> trace (log_op exact_world (Exists ''w/IMG_01.JPG.json'')) = [Exists ''w/IMG_01.JPG.json'']"
  using exact_sidecar_found [of exact_world "''w/IMG_01.JPG''" "init_processor ''w'' False"]
  by (simp add: exact_world_def empty_world_def log_op_def)

text \<open>
  C1, as the code has it. When every candidate that precedes the truncation loop is
  checked and found absent, and the names with fewer than \<open>n\<close> trailing characters
  removed are checked and found absent, and the name with \<open>n\<close> characters removed
  (\<open>n\<close> from 1 to 8) exists, then \<open>find_json_file\<close> returns that name: the existing
  truncated name with the fewest characters removed, since the loop tries 1, 2, ..., 8
  removed characters in this order. The statistics are unchanged and no tree-wide scan
  runs.
\<close>

theorem truncation_shortest_first:
  assumes "\<forall>c \<in> set (direct_names p). path_exists w c = Inr False"
      and "1 \<le> n" and "n \<le> 8" and "path_exists w (truncated_name p n) = Inr True"
      and "\<forall>j \<in> {1..<n}. path_exists w (truncated_name p j) = Inr False"
  shows "find_json_file self w p =
           (Inr (Some (truncated_name p n)), self,
            w\<lparr>trace := trace w @
                 map Exists (direct_names p @ map (truncated_name p) [1..<Suc n])\<rparr>)"
proof -
  let ?t = "truncated_name p"
  have shift: "map (\<lambda>i. ?t (i + 1)) [0..<8] = map ?t [1..<9]"
    by (simp add: upt_rec)
  have "[1..<9] = [1..<n] @ n # [Suc n..<9]"
    by (rule upt_split_at) (use assms(2,3) in simp_all)
  then have split: "map ?t [1..<9] = map ?t [1..<n] @ ?t n # map ?t [Suc n..<9]"
    by (simp only: map_append list.map)
  have names: "get_potential_json_names p =
      (direct_names p @ map ?t [1..<n]) @ ?t n # map ?t [Suc n..<9]"
    by (simp only: names_decomposed shift split append_assoc)
  have absent: "\<forall>c \<in> set (direct_names p @ map ?t [1..<n]). path_exists w c = Inr False"
    using assms(1,5) by auto
  have probe: "probe_candidates w (get_potential_json_names p) =
          (Inr (Some (?t n)),
           w\<lparr>trace := trace w @ map Exists ((direct_names p @ map ?t [1..<n]) @ [?t n])\<rparr>)"
    unfolding names by (rule probe_first_present [OF absent assms(4)])
  have "[1..<Suc n] = [1..<n] @ [n]"
    using assms(2) by simp
  then show ?thesis
    by (simp add: find_json_file_def probe del: upt_Suc)
qed

theorem truncation_shortest_first_witness:
  "find_json_file (init_processor ''w'' False) cut3_world ''w/IMG_0002.jpg'' =
     (Inr (Some ''w/IMG_0002..json''), init_processor ''w'' False,
      cut3_world\<lparr>trace := trace cut3_world @
         map Exists (direct_names ''w/IMG_0002.jpg'' @
                     map (truncated_name ''w/IMG_0002.jpg'') [1..<Suc 3])\<rparr>)"
proof -
  have hyps: "(\<forall>c \<in> set (direct_names ''w/IMG_0002.jpg''). path_exists cut3_world c = Inr False)
      \<and> (1::nat) \<le> 3 \<and> (3::nat) \<le> 8
      \<and> path_exists cut3_world (truncated_name ''w/IMG_0002.jpg'' 3) = Inr True
      \<and> (\<forall>j \<in> {1..<3}. path_exists cut3_world (truncated_name ''w/IMG_0002.jpg'' j)
                          = Inr False)"
    by code_simp
  have name: "truncated_name ''w/IMG_0002.jpg'' 3 = ''w/IMG_0002..json''"
    by code_simp
  have "find_json_file (init_processor ''w'' False) cut3_world ''w/IMG_0002.jpg'' =
     (Inr (Some (truncated_name ''w/IMG_0002.jpg'' 3)), init_processor ''w'' False,
      cut3_world\<lparr>trace := trace cut3_world @
         map Exists (direct_names ''w/IMG_0002.jpg'' @
                     map (truncated_name ''w/IMG_0002.jpg'') [1..<Suc 3])\<rparr>)"
    by (rule truncation_shortest_first) (use hyps in blast)+
  then show ?thesis
    by (simp only: name)
qed

text \<open>
  C1, as stated, fails in three ways. With the names cut by one and by two characters
  both on disk and nothing else, the locator returns the one cut by one character, not
  the longest truncation. For the duplicate \<open>IMG(1).jpg\<close>, whose exact sidecar is absent
  and whose name cut by one character is on disk, the locator returns the sidecar of the
  original photo, \<open>IMG.jpg.json\<close>, which precedes the truncated names among the
  candidates and is none of them. And for a name so long that the exact sidecar name
  exceeds what the file system holds, the first existence check raises and the locator
  returns nothing at all, though the name cut by one character is on disk.
\<close>

theorem truncation_longest_counterexample:
  "(fst (find_json_file (init_processor ''w'' False) truncation_world ''w/IMG_0001.jpg'') =
      Inr (Some (truncated_name ''w/IMG_0001.jpg'' 1))
    \<and> path_exists truncation_world (''w/IMG_0001.jpg'' @ ''.json'') = Inr False
    \<and> path_exists truncation_world (truncated_name ''w/IMG_0001.jpg'' 1) = Inr True
    \<and> path_exists truncation_world (truncated_name ''w/IMG_0001.jpg'' 2) = Inr True
    \<and> truncated_name ''w/IMG_0001.jpg'' 1 \<noteq> truncated_name ''w/IMG_0001.jpg'' 2)
   \<and> (fst (find_json_file (init_processor ''w'' False) duplicate_world ''w/IMG(1).jpg'') =
        Inr (Some ''w/IMG.jpg.json'')
      \<and> path_exists duplicate_world (''w/IMG(1).jpg'' @ ''.json'') = Inr False
      \<and> path_exists duplicate_world (truncated_name ''w/IMG(1).jpg'' 1) = Inr True
      \<and> ''w/IMG.jpg.json'' \<notin> set (map (truncated_name ''w/IMG(1).jpg'') [1..<9]))
   \<and> (fst (find_json_file (init_processor ''w'' False) long_name_world long_name)
        = Inl OSError
      \<and> length (path_name long_name) = 251
      \<and> path_exists long_name_world (truncated_name long_name 1) = Inr True)"
  by code_simp

text \<open>
  C9 at a video whose name contains its extension twice, \<open>v.mp4(1).mp4\<close>. The sidecar of
  the still image, \<open>v.mp4(1).HEIC.json\<close>, lies next to it and no video-named sidecar
  exists. \<open>str.replace\<close> rewrites both occurrences of \<open>.mp4\<close>, the stem-based names stop at
  the parenthesis, and neither step of the locator finds the sidecar.
\<close>

theorem live_photo_double_extension_not_found:
  "fst (find_json_file (init_processor ''w'' False) live_photo_world ''w/v.mp4(1).mp4'')
     = Inr None
   \<and> lower (path_suffix ''w/v.mp4(1).mp4'') \<in> ALL_FORMATS
   \<and> upper (path_suffix ''w/v.mp4(1).mp4'') = ''.MP4''
   \<and> path_stem ''w/v.mp4(1).mp4'' = ''v.mp4(1)''
   \<and> path_exists live_photo_world ''w/v.mp4(1).HEIC.json'' = Inr True
   \<and> path_exists live_photo_world ''w/v.mp4(1).mp4.json'' = Inr False
   \<and> path_exists live_photo_world ''w/v.mp4(1).json'' = Inr False"
  by code_simp

section \<open>The metadata applicator\<close>

lemma log_op_fields [simp]:
  "media (log_op w x) = media w" "json_files (log_op w x) = json_files w"
  "local_time (log_op w x) = local_time w" "rglob_json (log_op w x) = rglob_json w"
  "trace (log_op w x) = trace w @ [x]"
  by (simp_all add: log_op_def)

text \<open>The date step of a real run, when the system lets the process set the times.\<close>

lemma update_file_dates_real:
  assumes "\<not> dry_run self" and "media w p = Some f" and "utime_ok f ts" and "touch_ok f"
  shows "\<exists>w'. update_file_dates self w p ts = (Inr (), w')
           \<and> media w' = (media w)(p \<mapsto> f\<lparr>atime := ts, mtime := ts\<rparr>)
           \<and> local_time w' = local_time w
           \<and> trace w' = trace w @ [Utime p ts, Touch p, Utime p ts]"
  using assms
  by (simp add: update_file_dates_def os_utime_def path_touch_def Let_def log_op_def)

lemma update_file_dates_trace:
  "\<not> dry_run self \<Longrightarrow> Utime p ts \<in> set (trace (snd (update_file_dates self w p ts)))"
  by (simp add: update_file_dates_def os_utime_def path_touch_def Let_def log_op_def
      split: option.splits sum.splits prod.splits)

lemma image_save_keeps:
  "local_time (snd (image_save w q b)) = local_time w"
  "json_files (snd (image_save w q b)) = json_files w"
  by (simp_all add: image_save_def Let_def log_op_def split: option.splits)

lemma image_save_file:
  assumes "media w p = Some f"
  shows "\<exists>f'. media (snd (image_save w q b)) p = Some f'
           \<and> utime_ok f' = utime_ok f \<and> touch_ok f' = touch_ok f"
  using assms by (auto simp add: image_save_def Let_def log_op_def split: option.splits)

lemma body_keeps:
  "local_time (snd (update_image_exif_body self w q j)) = local_time w"
  by (simp add: update_image_exif_body_def image_save_keeps split: sum.splits)

lemma sidecar_timestamp: "get_timestamp sidecar_json = Inr 1609459200"
  by (simp add: sidecar_json_def get_timestamp_def json_getitem_def py_int_def int_of_string_def
      is_space_def unsigned_of_string_def digit_value_def int_max_str_digits_def)

lemma photo_suffix: "lower (path_suffix ''w/IMG_01.JPG'') = ''.jpg''"
  by code_simp


lemma body_file:
  assumes "media w p = Some f"
  shows "\<exists>f'. media (snd (update_image_exif_body self w q j)) p = Some f'
           \<and> utime_ok f' = utime_ok f \<and> touch_ok f' = touch_ok f"
  using assms image_save_file [OF assms]
  by (simp add: update_image_exif_body_def split: sum.splits)

lemma body_dry:
  "dry_run self \<Longrightarrow> snd (update_image_exif_body self w q j) = w"
  by (simp add: update_image_exif_body_def split: sum.splits)

lemma body_no_timestamp:
  "get_timestamp j = Inl e \<Longrightarrow> update_image_exif_body self w q j = (Inl e, w)"
  by (simp add: update_image_exif_body_def)


lemma update_image_exif_keeps:
  "local_time (snd (update_image_exif self w q j)) = local_time w"
  "dry_run (fst (update_image_exif self w q j)) = dry_run self"
  "success (stats (fst (update_image_exif self w q j))) = success (stats self)"
  using body_keeps [of self w q j]
  by (auto simp add: update_image_exif_def record_warning_def split: prod.splits sum.splits)

lemma update_image_exif_file:
  assumes "media w p = Some f"
  shows "\<exists>f'. media (snd (update_image_exif self w q j)) p = Some f'
           \<and> utime_ok f' = utime_ok f \<and> touch_ok f' = touch_ok f"
  using assms body_file [OF assms, of self q j]
  by (auto simp add: update_image_exif_def split: prod.splits sum.splits)

text \<open>
  C7. In a real run on a sidecar with a valid timestamp, for a media file that exists
  and whose times the system lets the process set, the access time and the modification
  time of the file are both exactly the timestamp once the \<open>try\<close> statement is done:
  whatever the image rewrite and the intermediate \<open>touch\<close> left there is overwritten by
  the last \<open>os.utime\<close>.
\<close>

theorem real_run_sets_both_times:
  assumes "\<not> dry_run self"
      and "json_files w json_path = Inr json_data"
      and "get_timestamp json_data = Inr timestamp"
      and "media w media_path = Some f" and "utime_ok f timestamp" and "touch_ok f"
  shows "\<exists>f'. media (snd (process_media_file_try self w media_path json_path)) media_path = Some f'
           \<and> atime f' = timestamp \<and> mtime f' = timestamp"
proof -
  let ?w1 = "log_op w (ReadJson json_path)"
  obtain self2 w2 where step:
    "(if lower (path_suffix media_path) \<in> IMAGE_FORMATS \<and> lower (path_suffix media_path) \<noteq> ''.heic''
      then update_image_exif self ?w1 media_path json_data else (self, ?w1)) = (self2, w2)"
    by (cases "(if lower (path_suffix media_path) \<in> IMAGE_FORMATS \<and> lower (path_suffix media_path) \<noteq> ''.heic''
      then update_image_exif self ?w1 media_path json_data else (self, ?w1))") 
  have dry2: "\<not> dry_run self2"
    using step assms(1) update_image_exif_keeps(2) [of self ?w1 media_path json_data]
    by (auto split: if_splits)
  obtain f2 where f2: "media w2 media_path = Some f2" "utime_ok f2 = utime_ok f" "touch_ok f2 = touch_ok f"
    using step assms(4) update_image_exif_file [of ?w1 media_path f self media_path json_data]
    by (auto split: if_splits)
  obtain w3 where dates: "update_file_dates self2 w2 media_path timestamp = (Inr (), w3)"
      and m3: "media w3 = (media w2)(media_path \<mapsto> f2\<lparr>atime := timestamp, mtime := timestamp\<rparr>)"
    using update_file_dates_real [OF dry2 f2(1), of timestamp] f2(2,3) assms(5,6) by auto
  have "snd (process_media_file_try self w media_path json_path) = w3"
    using assms(2,3) step dates
    by (simp add: process_media_file_try_def process_media_file_body_def Let_def split: sum.splits)
  then show ?thesis
    using m3 by simp
qed


theorem real_run_sets_both_times_witness:
  "\<exists>f'. media (snd (process_media_file_try (init_processor ''w'' False) takeout_world
                      ''w/IMG_01.JPG'' ''w/IMG_01.JPG.json'')) ''w/IMG_01.JPG'' = Some f'
        \<and> atime f' = 1609459200 \<and> mtime f' = 1609459200"
proof (rule real_run_sets_both_times)
  show "\<not> dry_run (init_processor ''w'' False)"
    by (simp add: init_processor_def)
  show "json_files takeout_world ''w/IMG_01.JPG.json'' = Inr sidecar_json"
    by (simp add: takeout_world_def empty_world_def)
  show "get_timestamp sidecar_json = Inr 1609459200"
    by (rule sidecar_timestamp)
  show "media takeout_world ''w/IMG_01.JPG'' = Some camera_file"
    by (simp add: takeout_world_def empty_world_def)
  show "utime_ok camera_file 1609459200" and "touch_ok camera_file"
    by (simp_all add: camera_file_def)
qed


lemma update_file_dates_cong:
  "dry_run a = dry_run b \<Longrightarrow> update_file_dates a w p ts = update_file_dates b w p ts"
  by (simp add: update_file_dates_def)

lemma record_warning_fields [simp]:
  "dry_run (record_warning self p e) = dry_run self"
  "success (stats (record_warning self p e)) = success (stats self)"
  "warnings (stats (record_warning self p e)) = warnings (stats self) + 1"
  "json_not_found (stats (record_warning self p e)) = json_not_found (stats self)"
  "json_found_in_other_dir (stats (record_warning self p e)) = json_found_in_other_dir (stats self)"
  "files_with_warnings (record_warning self p e) = files_with_warnings self @ [(p, e)]"
  by (simp_all add: record_warning_def)

text \<open>
  C5. For an image other than HEIC and a sidecar with a valid timestamp, when the
  metadata step fails with an error \<open>e\<close> (undecodable or unwritable file, a position
  that cannot be converted or serialised, a time outside the platform's range), the
  error is caught inside \<open>update_image_exif\<close> and recorded as a warning, and the date
  step still runs on the state the failed step left: the resulting world is the one
  \<open>update_file_dates\<close> returns, and in a real run its trace contains the \<open>os.utime\<close> call.
\<close>

theorem exif_failure_does_not_stop_date_update:
  assumes "json_files w json_path = Inr json_data"
      and "get_timestamp json_data = Inr timestamp"
      and "lower (path_suffix media_path) \<in> IMAGE_FORMATS"
      and "lower (path_suffix media_path) \<noteq> ''.heic''"
      and "update_image_exif_body self (log_op w (ReadJson json_path)) media_path json_data
             = (Inl e, w2)"
  shows "(media_path, e) \<in> set (files_with_warnings
                                 (fst (process_media_file_try self w media_path json_path)))
       \<and> warnings (stats self)
           < warnings (stats (fst (process_media_file_try self w media_path json_path)))
       \<and> snd (process_media_file_try self w media_path json_path)
           = snd (update_file_dates self w2 media_path timestamp)
       \<and> (dry_run self
            \<or> Utime media_path timestamp
                 \<in> set (trace (snd (process_media_file_try self w media_path json_path))))"
proof -
  let ?w1 = "log_op w (ReadJson json_path)"
  let ?self2 = "record_warning self media_path e"
  have exif: "update_image_exif self ?w1 media_path json_data = (?self2, w2)"
    using assms(3,5) by (simp add: update_image_exif_def)
  have dates: "update_file_dates ?self2 w2 media_path timestamp
                 = update_file_dates self w2 media_path timestamp"
    by (rule update_file_dates_cong) simp
  obtain r w3 where r: "update_file_dates self w2 media_path timestamp = (r, w3)"
    by (cases "update_file_dates self w2 media_path timestamp")
  have world: "snd (process_media_file_try self w media_path json_path) = w3"
    using assms(1-4) exif dates r
    by (simp add: process_media_file_try_def process_media_file_body_def Let_def
        split: sum.splits)
  have warned: "(media_path, e) \<in> set (files_with_warnings
                   (fst (process_media_file_try self w media_path json_path)))
       \<and> warnings (stats self)
           < warnings (stats (fst (process_media_file_try self w media_path json_path)))"
    using assms(1-4) exif dates r
    by (simp add: process_media_file_try_def process_media_file_body_def Let_def
        split: sum.splits)
  have "dry_run self \<or> Utime media_path timestamp \<in> set (trace w3)"
    using update_file_dates_trace [of self media_path timestamp w2] r by auto
  then show ?thesis
    using world warned r by simp
qed

text \<open>
  C6. When the located sidecar has no usable \<open>photoTakenTime.timestamp\<close> (the key is
  absent, or \<open>int()\<close> rejects the value), the entry is recorded as a warning and not as
  a success, no media file is changed (neither metadata nor times), and the only
  file-system operation is the read of the sidecar.
\<close>

theorem malformed_sidecar_warns_and_changes_nothing:
  assumes "json_files w json_path = Inr json_data"
      and "get_timestamp json_data = Inl e"
  shows "success (stats (fst (process_media_file_try self w media_path json_path)))
           = success (stats self)
       \<and> warnings (stats self)
           < warnings (stats (fst (process_media_file_try self w media_path json_path)))
       \<and> (media_path, e) \<in> set (files_with_warnings
                                   (fst (process_media_file_try self w media_path json_path)))
       \<and> media (snd (process_media_file_try self w media_path json_path)) = media w
       \<and> trace (snd (process_media_file_try self w media_path json_path))
           = trace w @ [ReadJson json_path]"
  using assms
  by (simp add: process_media_file_try_def process_media_file_body_def Let_def
      update_image_exif_def body_no_timestamp)


lemma sidecar_block: "build_exif_bytes dt sidecar_json = Inr (base_exif_dict dt)"
  by (simp add: build_exif_bytes_def sidecar_json_def json_get_def py_ne_zero_def
      piexif_dump_def fits_u32_def base_exif_dict_def)

theorem exif_failure_does_not_stop_date_update_witness:
  "(''w/IMG_01.JPG'', OSError) \<in> set (files_with_warnings
       (fst (process_media_file_try (init_processor ''w'' False) corrupt_world
               ''w/IMG_01.JPG'' ''w/IMG_01.JPG.json'')))
   \<and> warnings (stats (init_processor ''w'' False))
       < warnings (stats (fst (process_media_file_try (init_processor ''w'' False) corrupt_world
                                 ''w/IMG_01.JPG'' ''w/IMG_01.JPG.json'')))
   \<and> snd (process_media_file_try (init_processor ''w'' False) corrupt_world
             ''w/IMG_01.JPG'' ''w/IMG_01.JPG.json'')
       = snd (update_file_dates (init_processor ''w'' False)
                (log_op (log_op corrupt_world (ReadJson ''w/IMG_01.JPG.json''))
                        (OpenImage ''w/IMG_01.JPG''))
                ''w/IMG_01.JPG'' 1609459200)
   \<and> (dry_run (init_processor ''w'' False)
        \<or> Utime ''w/IMG_01.JPG'' 1609459200
             \<in> set (trace (snd (process_media_file_try (init_processor ''w'' False) corrupt_world
                                   ''w/IMG_01.JPG'' ''w/IMG_01.JPG.json''))))"
proof (rule exif_failure_does_not_stop_date_update)
  show "json_files corrupt_world ''w/IMG_01.JPG.json'' = Inr sidecar_json"
    by (simp add: corrupt_world_def takeout_world_def empty_world_def)
  show "get_timestamp sidecar_json = Inr 1609459200"
    by (rule sidecar_timestamp)
  show "lower (path_suffix ''w/IMG_01.JPG'') \<in> IMAGE_FORMATS"
    by (simp add: photo_suffix IMAGE_FORMATS_def)
  show "lower (path_suffix ''w/IMG_01.JPG'') \<noteq> ''.heic''"
    by (simp add: photo_suffix)
  show "update_image_exif_body (init_processor ''w'' False)
          (log_op corrupt_world (ReadJson ''w/IMG_01.JPG.json'')) ''w/IMG_01.JPG'' sidecar_json
        = (Inl OSError,
           log_op (log_op corrupt_world (ReadJson ''w/IMG_01.JPG.json''))
                  (OpenImage ''w/IMG_01.JPG''))"
    by (simp add: update_image_exif_body_def sidecar_timestamp sidecar_block image_save_def init_processor_def
        corrupt_world_def takeout_world_def empty_world_def camera_file_def log_op_def)
qed

text \<open>
  A timestamp behind the separator 0x1F is refused, as it is by \<open>int()\<close>; one between
  the spaces 0xA0 and 0x85 is read.
\<close>

lemma separator_is_no_blank:
  "int_of_string (CHR 0x1F # ''12'') = Inl ValueError"
  "int_of_string (CHR 0xA0 # ''12'' @ [CHR 0x85]) = Inr 12"
  by (simp_all add: int_of_string_def is_space_def unsigned_of_string_def digit_value_def
      int_max_str_digits_def)

lemma malformed_timestamp: "get_timestamp malformed_json = Inl KeyError"
  by (simp add: malformed_json_def get_timestamp_def json_getitem_def)

theorem malformed_sidecar_warns_and_changes_nothing_witness:
  "success (stats (fst (process_media_file_try (init_processor ''w'' False) malformed_world
                          ''w/IMG_01.JPG'' ''w/IMG_01.JPG.json'')))
           = success (stats (init_processor ''w'' False))
       \<and> warnings (stats (init_processor ''w'' False))
           < warnings (stats (fst (process_media_file_try (init_processor ''w'' False) malformed_world
                          ''w/IMG_01.JPG'' ''w/IMG_01.JPG.json'')))
       \<and> (''w/IMG_01.JPG'', KeyError) \<in> set (files_with_warnings
                                   (fst (process_media_file_try (init_processor ''w'' False) malformed_world
                          ''w/IMG_01.JPG'' ''w/IMG_01.JPG.json'')))
       \<and> media (snd (process_media_file_try (init_processor ''w'' False) malformed_world
                          ''w/IMG_01.JPG'' ''w/IMG_01.JPG.json'')) = media malformed_world
       \<and> trace (snd (process_media_file_try (init_processor ''w'' False) malformed_world
                          ''w/IMG_01.JPG'' ''w/IMG_01.JPG.json''))
           = trace malformed_world @ [ReadJson ''w/IMG_01.JPG.json'']"
proof (rule malformed_sidecar_warns_and_changes_nothing)
  show "json_files malformed_world ''w/IMG_01.JPG.json'' = Inr malformed_json"
    by (simp add: malformed_world_def takeout_world_def empty_world_def)
  show "get_timestamp malformed_json = Inl KeyError"
    by (rule malformed_timestamp)
qed

lemma image_save_ok:
  assumes "media w p = Some f" and "decodable f" and "writable f"
  shows "fst (image_save w p b) = Inr ()"
  using assms by (simp add: image_save_def Let_def)

lemma body_real_ok:
  assumes "\<not> dry_run r" and "get_timestamp j = Inr ts" and "local_time w ts = Inr dt"
      and "build_exif_bytes dt j = Inr b"
      and "media w p = Some f" and "decodable f" and "writable f"
  shows "fst (update_image_exif_body r w p j) = Inr ()"
  using assms image_save_ok [of w p f b]
  by (simp add: update_image_exif_body_def split: prod.splits)

lemma body_dry_ok:
  assumes "dry_run d" and "get_timestamp j = Inr ts" and "local_time w ts = Inr dt"
  shows "update_image_exif_body d w p j = (Inr (), w)"
  using assms by (simp add: update_image_exif_body_def)

lemma body_time_fail:
  assumes "get_timestamp j = Inr ts" and "local_time w ts = Inl e"
  shows "update_image_exif_body s w p j = (Inl e, w)"
  using assms by (simp add: update_image_exif_body_def)

lemma dates_dry:
  "dry_run s \<Longrightarrow> update_file_dates s w p ts =
     (case local_time w ts of Inl e \<Rightarrow> (Inl e, w) | Inr x \<Rightarrow> (Inr (), w))"
  by (simp add: update_file_dates_def)

lemma try_no_json:
  assumes "json_files w jp = Inl e"
  shows "process_media_file_try self w p jp = (record_warning self p e, log_op w (ReadJson jp))"
  using assms by (simp add: process_media_file_try_def process_media_file_body_def Let_def)

lemma try_unfold:
  assumes "json_files w jp = Inr j"
      and "(if lower (path_suffix p) \<in> IMAGE_FORMATS \<and> lower (path_suffix p) \<noteq> ''.heic''
            then update_image_exif self (log_op w (ReadJson jp)) p j
            else (self, log_op w (ReadJson jp))) = (self2, w2)"
  shows "process_media_file_try self w p jp =
           (case get_timestamp j of
              Inl e \<Rightarrow> (record_warning self2 p e, w2)
            | Inr ts \<Rightarrow>
                (case update_file_dates self2 w2 p ts of
                   (Inl e, w3) \<Rightarrow> (record_warning self2 p e, w3)
                 | (Inr u, w3) \<Rightarrow>
                     (case local_time w3 ts of
                        Inl e \<Rightarrow> (record_warning self2 p e, w3)
                      | Inr x \<Rightarrow>
                          (self2\<lparr>stats := (stats self2)\<lparr>success :=
                                             success (stats self2) + 1\<rparr>\<rparr>, w3))))"
  using assms
  by (simp add: process_media_file_try_def process_media_file_body_def Let_def
      split: sum.splits prod.splits)

text \<open>What a dry run leaves behind: the world with one more read in its trace.\<close>

lemma dry_run_world:
  assumes "dry_run d"
  shows "snd (process_media_file_try d w p jp) = log_op w (ReadJson jp)"
proof (cases "json_files w jp")
  case (Inl e)
  then show ?thesis by (simp add: try_no_json)
next
  case (Inr j)
  let ?w1 = "log_op w (ReadJson jp)"
  obtain self2 w2 where step:
    "(if lower (path_suffix p) \<in> IMAGE_FORMATS \<and> lower (path_suffix p) \<noteq> ''.heic''
      then update_image_exif d ?w1 p j else (d, ?w1)) = (self2, w2)"
    by (cases "(if lower (path_suffix p) \<in> IMAGE_FORMATS \<and> lower (path_suffix p) \<noteq> ''.heic''
      then update_image_exif d ?w1 p j else (d, ?w1))")
  have "snd (update_image_exif d ?w1 p j) = ?w1"
    using assms body_dry [of d ?w1 p j]
    by (auto simp add: update_image_exif_def split: prod.splits sum.splits)
  then have w2: "w2 = ?w1"
    using step by (auto split: if_splits)
  have dry2: "dry_run self2"
    using step assms update_image_exif_keeps(2) [of d ?w1 p j] by (auto split: if_splits)
  show ?thesis
    by (simp add: try_unfold [OF Inr step] dates_dry [OF dry2] w2 split: sum.splits)
qed


lemma exif_step_cases:
  obtains self2 w2 where
    "(if lower (path_suffix p) \<in> IMAGE_FORMATS \<and> lower (path_suffix p) \<noteq> ''.heic''
      then update_image_exif self w1 p j else (self, w1)) = (self2, w2)"
  by (cases "(if lower (path_suffix p) \<in> IMAGE_FORMATS \<and> lower (path_suffix p) \<noteq> ''.heic''
      then update_image_exif self w1 p j else (self, w1))")

lemma exif_step_failed:
  assumes "update_image_exif_body self w1 p j = (Inl e, w1)"
      and "(if lower (path_suffix p) \<in> IMAGE_FORMATS \<and> lower (path_suffix p) \<noteq> ''.heic''
            then update_image_exif self w1 p j else (self, w1)) = (self2, w2)"
  shows "w2 = w1"
    and "self2 = (if lower (path_suffix p) \<in> IMAGE_FORMATS \<and> lower (path_suffix p) \<noteq> ''.heic''
                  then record_warning self p e else self)"
  using assms by (auto simp add: update_image_exif_def split: if_splits)

lemma exif_step_passed:
  assumes "fst (update_image_exif_body self w1 p j) = Inr ()"
      and "(if lower (path_suffix p) \<in> IMAGE_FORMATS \<and> lower (path_suffix p) \<noteq> ''.heic''
            then update_image_exif self w1 p j else (self, w1)) = (self2, w2)"
  shows "self2 = self"
  using assms by (auto simp add: update_image_exif_def split: if_splits prod.splits sum.splits)

lemma exif_step_world:
  assumes "(if lower (path_suffix p) \<in> IMAGE_FORMATS \<and> lower (path_suffix p) \<noteq> ''.heic''
            then update_image_exif self w1 p j else (self, w1)) = (self2, w2)"
      and "media w1 p = Some f"
  shows "local_time w2 = local_time w1"
    and "dry_run self2 = dry_run self"
    and "\<exists>f2. media w2 p = Some f2 \<and> utime_ok f2 = utime_ok f \<and> touch_ok f2 = touch_ok f"
  using assms update_image_exif_keeps(1,2) [of self w1 p j]
    update_image_exif_file [of w1 p f self p j]
  by (auto split: if_splits)

text \<open>
  C2, as the code has it. A dry run changes no media file. Its statistics and its list
  of warnings are those of the real run on the same inputs whenever the steps that only
  the real run performs cannot fail: the file exists and may be touched, its times may
  be set to the timestamp of the sidecar, and, for an image other than HEIC, the file
  can be decoded and written and the metadata block can be built and serialised from
  the sidecar.
\<close>

theorem dry_run_agrees_when_writes_succeed:
  assumes "dry_run d"
      and "media w p = Some f" and "touch_ok f"
      and "\<And>j ts. json_files w jp = Inr j \<Longrightarrow> get_timestamp j = Inr ts \<Longrightarrow> utime_ok f ts"
      and "lower (path_suffix p) \<in> IMAGE_FORMATS \<and> lower (path_suffix p) \<noteq> ''.heic''
             \<Longrightarrow> decodable f \<and> writable f"
      and "\<And>j dt. lower (path_suffix p) \<in> IMAGE_FORMATS \<and> lower (path_suffix p) \<noteq> ''.heic''
             \<Longrightarrow> json_files w jp = Inr j \<Longrightarrow> \<exists>b. build_exif_bytes dt j = Inr b"
  shows "stats (fst (process_media_file_try d w p jp))
           = stats (fst (process_media_file_try (d\<lparr>dry_run := False\<rparr>) w p jp))
       \<and> files_with_warnings (fst (process_media_file_try d w p jp))
           = files_with_warnings (fst (process_media_file_try (d\<lparr>dry_run := False\<rparr>) w p jp))
       \<and> media (snd (process_media_file_try d w p jp)) = media w"
proof -
  let ?r = "d\<lparr>dry_run := False\<rparr>"
  let ?w1 = "log_op w (ReadJson jp)"
  let ?img = "lower (path_suffix p) \<in> IMAGE_FORMATS \<and> lower (path_suffix p) \<noteq> ''.heic''"
  have unchanged: "media (snd (process_media_file_try d w p jp)) = media w"
    by (simp add: dry_run_world [OF assms(1)])
  have f1: "media ?w1 p = Some f"
    using assms(2) by simp
  have same: "stats (fst (process_media_file_try d w p jp))
                = stats (fst (process_media_file_try ?r w p jp))
       \<and> files_with_warnings (fst (process_media_file_try d w p jp))
           = files_with_warnings (fst (process_media_file_try ?r w p jp))"
  proof (cases "json_files w jp")
    case (Inl e)
    then show ?thesis by (simp add: try_no_json record_warning_def)
  next
    case (Inr j)
    obtain d2 wd where sd: "(if ?img then update_image_exif d ?w1 p j else (d, ?w1)) = (d2, wd)"
      by (rule exif_step_cases)
    obtain r2 wr where sr: "(if ?img then update_image_exif ?r ?w1 p j else (?r, ?w1)) = (r2, wr)"
      by (rule exif_step_cases)
    note ud = try_unfold [OF Inr sd] and ur = try_unfold [OF Inr sr]
    show ?thesis
    proof (cases "get_timestamp j")
      case (Inl e)
      have "d2 = (if ?img then record_warning d p e else d)"
       and "r2 = (if ?img then record_warning ?r p e else ?r)"
        using exif_step_failed(2) [OF body_no_timestamp [OF Inl] sd]
          exif_step_failed(2) [OF body_no_timestamp [OF Inl] sr] by simp_all
      then show ?thesis
        by (simp add: ud ur Inl record_warning_def)
    next
      case ts: (Inr ts)
      have utime: "utime_ok f ts"
        using assms(4) [OF Inr ts] .
      obtain fr where fr: "media wr p = Some fr" "utime_ok fr = utime_ok f" "touch_ok fr = touch_ok f"
        using exif_step_world(3) [OF sr f1] by auto
      have dry_d2: "dry_run d2" and real_r2: "\<not> dry_run r2"
        using exif_step_world(2) [OF sd f1] exif_step_world(2) [OF sr f1] assms(1) by simp_all
      have wd: "local_time wd = local_time w" and wr: "local_time wr = local_time w"
        using exif_step_world(1) [OF sd f1] exif_step_world(1) [OF sr f1] by simp_all
      obtain w3 where dates_r: "update_file_dates r2 wr p ts = (Inr (), w3)"
          and w3: "local_time w3 = local_time w"
        using update_file_dates_real [OF real_r2 fr(1), of ts] fr(2,3) assms(3) utime wr by auto
      show ?thesis
      proof (cases "local_time w ts")
        case (Inl e)
        have fail: "update_image_exif_body s ?w1 p j = (Inl e, ?w1)" for s
          by (rule body_time_fail [OF ts]) (simp add: Inl)
        have "d2 = (if ?img then record_warning d p e else d)"
         and "r2 = (if ?img then record_warning ?r p e else ?r)"
          using exif_step_failed(2) [OF fail sd] exif_step_failed(2) [OF fail sr] by simp_all
        moreover have "fst (process_media_file_try d w p jp) = record_warning d2 p e"
          by (simp add: ud ts dates_dry [OF dry_d2] wd Inl)
        moreover have "fst (process_media_file_try ?r w p jp) = record_warning r2 p e"
          by (simp add: ur ts dates_r w3 Inl)
        ultimately show ?thesis
          by (simp add: record_warning_def)
      next
        case (Inr dt)
        have d2: "d2 = d" and r2: "r2 = ?r"
        proof -
          show "d2 = d"
          proof (cases ?img)
            case True
            have "fst (update_image_exif_body d ?w1 p j) = Inr ()"
              using body_dry_ok [OF assms(1) ts, of ?w1 dt p] Inr by simp
            then show ?thesis
              using exif_step_passed sd by blast
          next
            case False
            then show ?thesis
              using sd by (auto split: if_splits)
          qed
          show "r2 = ?r"
          proof (cases ?img)
            case True
            obtain b where b: "build_exif_bytes dt j = Inr b"
              using assms(6) [OF True \<open>json_files w jp = Inr j\<close>] by blast
            have ok: "decodable f" "writable f"
              using assms(5) [OF True] by simp_all
            have "fst (update_image_exif_body ?r ?w1 p j) = Inr ()"
              by (rule body_real_ok [OF _ ts _ b f1 ok]) (simp_all add: Inr)
            then show ?thesis
              using exif_step_passed sr by blast
          next
            case False
            then show ?thesis
              using sr by (auto split: if_splits)
          qed
        qed
        have "fst (process_media_file_try d w p jp)
                = d2\<lparr>stats := (stats d2)\<lparr>success := success (stats d2) + 1\<rparr>\<rparr>"
          by (simp add: ud ts dates_dry [OF dry_d2] wd Inr)
        moreover have "fst (process_media_file_try ?r w p jp)
                = r2\<lparr>stats := (stats r2)\<lparr>success := success (stats r2) + 1\<rparr>\<rparr>"
          by (simp add: ur ts dates_r w3 Inr)
        ultimately show ?thesis
          by (simp add: d2 r2)
      qed
    qed
  qed
  show ?thesis
    using same unchanged by simp
qed

theorem dry_run_agrees_when_writes_succeed_witness:
  "stats (fst (process_media_file_try (init_processor ''w'' True) takeout_world
                 ''w/IMG_01.JPG'' ''w/IMG_01.JPG.json''))
     = stats (fst (process_media_file_try ((init_processor ''w'' True)\<lparr>dry_run := False\<rparr>)
                     takeout_world ''w/IMG_01.JPG'' ''w/IMG_01.JPG.json''))
   \<and> files_with_warnings (fst (process_media_file_try (init_processor ''w'' True) takeout_world
                                 ''w/IMG_01.JPG'' ''w/IMG_01.JPG.json''))
     = files_with_warnings
         (fst (process_media_file_try ((init_processor ''w'' True)\<lparr>dry_run := False\<rparr>)
                 takeout_world ''w/IMG_01.JPG'' ''w/IMG_01.JPG.json''))
   \<and> media (snd (process_media_file_try (init_processor ''w'' True) takeout_world
                     ''w/IMG_01.JPG'' ''w/IMG_01.JPG.json'')) = media takeout_world"
proof (rule dry_run_agrees_when_writes_succeed)
  show "dry_run (init_processor ''w'' True)"
    by (simp add: init_processor_def)
  show "media takeout_world ''w/IMG_01.JPG'' = Some camera_file"
    by (simp add: takeout_world_def empty_world_def)
  show "touch_ok camera_file"
    by (simp add: camera_file_def)
  show "utime_ok camera_file ts" for ts
    by (simp add: camera_file_def)
  show "decodable camera_file \<and> writable camera_file"
    by (simp add: camera_file_def)
  show "\<exists>b. build_exif_bytes dt j = Inr b"
    if "json_files takeout_world ''w/IMG_01.JPG.json'' = Inr j" for j dt
  proof -
    have "j = sidecar_json"
      using that by (simp add: takeout_world_def empty_world_def)
    then show ?thesis
      by (simp add: sidecar_block)
  qed
qed

text \<open>
  C2, as stated, fails: for an image file that cannot be written, the real run counts a
  warning for the failed metadata step, the dry run returns before the write and counts
  none.
\<close>

theorem dry_run_statistics_counterexample:
  "stats (fst (process_media_file_try (init_processor ''w'' True) readonly_world
                 ''w/IMG_01.JPG'' ''w/IMG_01.JPG.json''))
     = \<lparr>success = 1, warnings = 0, json_not_found = 0, ignored_with_exif = 0,
        json_found_in_other_dir = 0\<rparr>
   \<and> stats (fst (process_media_file_try (init_processor ''w'' False) readonly_world
                 ''w/IMG_01.JPG'' ''w/IMG_01.JPG.json''))
     = \<lparr>success = 1, warnings = 1, json_not_found = 0, ignored_with_exif = 0,
        json_found_in_other_dir = 0\<rparr>"
proof -
  have "stats (fst (process_media_file_try (init_processor ''w'' True) readonly_world
                 ''w/IMG_01.JPG'' ''w/IMG_01.JPG.json''))
     = \<lparr>success = 1, warnings = 0, json_not_found = 0, ignored_with_exif = 0,
        json_found_in_other_dir = 0\<rparr>"
    by (simp add: process_media_file_try_def process_media_file_body_def update_image_exif_def
        update_image_exif_body_def update_file_dates_def sidecar_timestamp photo_suffix IMAGE_FORMATS_def
        init_processor_def readonly_world_def takeout_world_def empty_world_def log_op_def)
  moreover have "stats (fst (process_media_file_try (init_processor ''w'' False) readonly_world
                 ''w/IMG_01.JPG'' ''w/IMG_01.JPG.json''))
     = \<lparr>success = 1, warnings = 1, json_not_found = 0, ignored_with_exif = 0,
        json_found_in_other_dir = 0\<rparr>"
    by (simp add: process_media_file_try_def process_media_file_body_def update_image_exif_def
        update_image_exif_body_def update_file_dates_def os_utime_def path_touch_def
        image_save_def record_warning_def sidecar_timestamp photo_suffix sidecar_block IMAGE_FORMATS_def camera_file_def
        init_processor_def readonly_world_def takeout_world_def empty_world_def log_op_def Let_def)
  ultimately show ?thesis
    by (simp only: simp_thms)
qed


section \<open>The run statistics\<close>

lemma probe_keeps_tree:
  "rglob_json (snd (probe_candidates w xs)) = rglob_json w"
  by (induction xs arbitrary: w) (simp_all add: log_op_def split: sum.splits)

lemma exif_step_stats:
  assumes "(if lower (path_suffix p) \<in> IMAGE_FORMATS \<and> lower (path_suffix p) \<noteq> ''.heic''
            then update_image_exif self w1 p j else (self, w1)) = (self2, w2)"
  shows "success (stats self2) = success (stats self)"
    and "json_not_found (stats self2) = json_not_found (stats self)"
    and "json_found_in_other_dir (stats self2) = json_found_in_other_dir (stats self)"
    and "ignored_with_exif (stats self2) = ignored_with_exif (stats self)"
    and "warnings (stats self) \<le> warnings (stats self2)"
  using assms
  by (auto simp add: update_image_exif_def record_warning_def
      split: if_splits prod.splits sum.splits)

lemma try_counts:
  "json_not_found (stats (fst (process_media_file_try self w p jp))) = json_not_found (stats self)
   \<and> json_found_in_other_dir (stats (fst (process_media_file_try self w p jp)))
       = json_found_in_other_dir (stats self)
   \<and> ignored_with_exif (stats (fst (process_media_file_try self w p jp)))
       = ignored_with_exif (stats self)
   \<and> success (stats self) \<le> success (stats (fst (process_media_file_try self w p jp)))
   \<and> success (stats (fst (process_media_file_try self w p jp))) \<le> success (stats self) + 1
   \<and> warnings (stats self) \<le> warnings (stats (fst (process_media_file_try self w p jp)))
   \<and> success (stats self) + warnings (stats self)
       < success (stats (fst (process_media_file_try self w p jp)))
         + warnings (stats (fst (process_media_file_try self w p jp)))"
proof (cases "json_files w jp")
  case (Inl e)
  then show ?thesis by (simp add: try_no_json record_warning_def)
next
  case (Inr j)
  obtain self2 w2 where step:
    "(if lower (path_suffix p) \<in> IMAGE_FORMATS \<and> lower (path_suffix p) \<noteq> ''.heic''
      then update_image_exif self (log_op w (ReadJson jp)) p j
      else (self, log_op w (ReadJson jp))) = (self2, w2)"
    by (rule exif_step_cases)
  show ?thesis
    using exif_step_stats [OF step]
    by (simp add: try_unfold [OF Inr step] record_warning_def split: sum.splits prod.splits)
qed

text \<open>
  C4, as the code has it. When the existence checks of the search answer, processing one
  media entry returns and counts the entry. A sidecar found next to the file leaves the
  not-found and found-elsewhere counters as they were. With no sidecar next to the file
  and none in the tree, the entry is counted once as not found and under nothing else.
  With a sidecar taken from the tree-wide scan, found-elsewhere grows by exactly one. In
  both cases with a sidecar the entry is counted as a success at most once and as a
  success or a warning at least once; a warning of the metadata step and the success of
  the date step may both be counted for the same entry.
\<close>

theorem every_entry_is_counted:
  assumes "probe_candidates w (get_potential_json_names p) = (Inr same_dir, w1)"
  shows "fst (process_media_file self w p) = Inr ()
       \<and> (let s = stats self; s' = stats (fst (snd (process_media_file self w p)))
          in ignored_with_exif s' = ignored_with_exif s
           \<and> (case same_dir of
                 Some json_path \<Rightarrow>
                   json_not_found s' = json_not_found s
                   \<and> json_found_in_other_dir s' = json_found_in_other_dir s
                   \<and> success s \<le> success s' \<and> success s' \<le> success s + 1
                   \<and> warnings s \<le> warnings s'
                   \<and> success s + warnings s < success s' + warnings s'
               | None \<Rightarrow>
                   (case scan_tree (map path_name (get_potential_json_names p))
                                   (rglob_json w) of
                      None \<Rightarrow>
                        json_not_found s' = json_not_found s + 1
                        \<and> json_found_in_other_dir s' = json_found_in_other_dir s
                        \<and> success s' = success s \<and> warnings s' = warnings s
                    | Some json_candidate \<Rightarrow>
                        json_not_found s' = json_not_found s
                        \<and> json_found_in_other_dir s' = json_found_in_other_dir s + 1
                        \<and> success s \<le> success s' \<and> success s' \<le> success s + 1
                        \<and> warnings s \<le> warnings s'
                        \<and> success s + warnings s < success s' + warnings s')))"
proof (cases same_dir)
  case (Some jp)
  have found: "find_json_file self w p = (Inr (Some jp), self, w1)"
    using assms Some by (simp add: find_json_file_def)
  show ?thesis
    using try_counts [of self w1 p jp]
    by (simp add: process_media_file_def found Some Let_def split: prod.splits)
next
  case None
  have tree: "rglob_json w1 = rglob_json w"
    using probe_keeps_tree [of w "get_potential_json_names p"] assms by simp
  show ?thesis
  proof (cases "scan_tree (map path_name (get_potential_json_names p)) (rglob_json w)")
    case no_match: None
    have "find_json_file self w p = (Inr None, self, log_op w1 (Rglob (work_dir self)))"
      using assms None no_match tree by (simp add: find_json_file_def Let_def)
    then show ?thesis
      by (simp add: process_media_file_def None no_match Let_def)
  next
    case (Some jc)
    let ?self1 = "self\<lparr>stats := (stats self)\<lparr>json_found_in_other_dir :=
                                     json_found_in_other_dir (stats self) + 1\<rparr>\<rparr>"
    have "find_json_file self w p = (Inr (Some jc), ?self1, log_op w1 (Rglob (work_dir self)))"
      using assms None Some tree by (simp add: find_json_file_def Let_def)
    then show ?thesis
      using try_counts [of ?self1 "log_op w1 (Rglob (work_dir self))" p jc]
      by (simp add: process_media_file_def None Some Let_def split: prod.splits)
  qed
qed


theorem every_entry_is_counted_witness:
  "fst (process_media_file (init_processor ''w'' False) elsewhere_world ''w/a/IMG_01.JPG'')
     = Inr ()
   \<and> json_found_in_other_dir
        (stats (fst (snd (process_media_file (init_processor ''w'' False) elsewhere_world
                            ''w/a/IMG_01.JPG'')))) = 1
   \<and> json_not_found
        (stats (fst (snd (process_media_file (init_processor ''w'' False) elsewhere_world
                            ''w/a/IMG_01.JPG'')))) = 0
   \<and> success
        (stats (fst (snd (process_media_file (init_processor ''w'' False) elsewhere_world
                            ''w/a/IMG_01.JPG'')))) \<le> 1
   \<and> 0 < success
            (stats (fst (snd (process_media_file (init_processor ''w'' False) elsewhere_world
                                ''w/a/IMG_01.JPG''))))
         + warnings
            (stats (fst (snd (process_media_file (init_processor ''w'' False) elsewhere_world
                                ''w/a/IMG_01.JPG''))))"
proof -
  let ?names = "get_potential_json_names ''w/a/IMG_01.JPG''"
  have "fst (probe_candidates elsewhere_world ?names) = Inr None"
    by code_simp
  then have probe: "probe_candidates elsewhere_world ?names
                      = (Inr None, snd (probe_candidates elsewhere_world ?names))"
    by (simp add: prod_eq_iff)
  have scan: "scan_tree (map path_name ?names) (rglob_json elsewhere_world)
                = Some ''w/b/IMG_01.JPG.json''"
    by code_simp
  show ?thesis
    using every_entry_is_counted [OF probe, of "init_processor ''w'' False"]
    by (simp add: scan init_processor_def Let_def)
qed

text \<open>
  C4, as stated, fails: an image that cannot be decoded, next to a well-formed sidecar,
  is counted once under warnings and once under successes in the same run.
\<close>

theorem warning_and_success_counterexample:
  "stats (fst (snd (process_media_file (init_processor ''w'' False) corrupt_world
                      ''w/IMG_01.JPG'')))
     = \<lparr>success = 1, warnings = 1, json_not_found = 0, ignored_with_exif = 0,
        json_found_in_other_dir = 0\<rparr>
   \<and> files_with_warnings
        (fst (snd (process_media_file (init_processor ''w'' False) corrupt_world
                     ''w/IMG_01.JPG'')))
     = [(''w/IMG_01.JPG'', OSError)]"
proof -
  have "path_exists corrupt_world (''w/IMG_01.JPG'' @ ''.json'') = Inr True"
    by (simp add: corrupt_world_def takeout_world_def empty_world_def)
  then have found: "find_json_file (init_processor ''w'' False) corrupt_world ''w/IMG_01.JPG''
      = (Inr (Some ''w/IMG_01.JPG.json''), init_processor ''w'' False,
         log_op corrupt_world (Exists ''w/IMG_01.JPG.json''))"
    using probe_exact [of corrupt_world "''w/IMG_01.JPG''"] by (simp add: find_json_file_def)
  have "snd (process_media_file (init_processor ''w'' False) corrupt_world ''w/IMG_01.JPG'')
          = process_media_file_try (init_processor ''w'' False)
              (log_op corrupt_world (Exists ''w/IMG_01.JPG.json''))
              ''w/IMG_01.JPG'' ''w/IMG_01.JPG.json''"
    by (simp only: process_media_file_def found prod.case option.case sum.case
        split: prod.splits) simp
  then show ?thesis
    by (simp add: process_media_file_try_def
        process_media_file_body_def update_image_exif_def
        update_image_exif_body_def update_file_dates_def os_utime_def path_touch_def
        image_save_def record_warning_def sidecar_timestamp photo_suffix sidecar_block
        IMAGE_FORMATS_def camera_file_def
        init_processor_def corrupt_world_def takeout_world_def empty_world_def log_op_def Let_def)
qed

section \<open>The embedded metadata\<close>








section \<open>The coordinate conversion\<close>

lemma bit_length_numeral: "bit_length (numeral n) = Suc (bit_length (numeral n div 2))"
  by (subst bit_length.simps) simp

lemma bit_length_0: "bit_length 0 = 0"
  by (subst bit_length.simps) simp

lemma bit_length_1: "bit_length (Suc 0) = Suc 0"
  by (subst bit_length.simps) (simp add: bit_length_0)

lemmas bit_length_eval = bit_length_numeral bit_length_0 bit_length_1

lemma pow2_pos: "0 < pow2 e"
  by (simp add: pow2_def)

lemma round_half_even_nonneg: "0 \<le> q \<Longrightarrow> 0 \<le> round_half_even q"
  by (auto simp add: round_half_even_def Let_def)

lemma round_double_nonneg:
  assumes "0 \<le> x"
  shows "0 \<le> round_double x"
proof (cases "x = 0")
  case True
  then show ?thesis by (simp add: round_double_def)
next
  case False
  let ?u = "pow2 (floor_log2 x - 52)"
  have pos: "0 < x"
    using assms False by simp
  have "0 \<le> x / ?u"
    using pos pow2_pos [of "floor_log2 x - 52"] by simp
  then have "0 \<le> real_of_int (round_half_even (x / ?u)) * ?u"
    using pow2_pos [of "floor_log2 x - 52"] round_half_even_nonneg [of "x / ?u"] by simp
  then show ?thesis
    using pos by (simp add: round_double_def Let_def)
qed

lemma py_trunc_nonneg: "0 \<le> x \<Longrightarrow> py_trunc x = \<lfloor>x\<rfloor>"
  by (simp add: py_trunc_def)

lemma frac_part_nonneg: "0 \<le> x - of_int \<lfloor>x\<rfloor>" for x :: real
  by linarith

text \<open>
  C10. For a non-negative value, \<open>convert_to_degrees\<close> returns the floor of the value,
  the floor of the minutes and the floor of the seconds, each over the denominator 1:
  every intermediate float is non-negative, so the truncation of \<open>int()\<close> is the floor,
  and nothing is rounded to the nearest integer. The double nearest to 48.8584 gives
  48 degrees, 51 minutes, 30 seconds.
\<close>

theorem convert_to_degrees_floor:
  assumes "0 \<le> v"
  shows "convert_to_degrees v =
           ((\<lfloor>v\<rfloor>, 1),
            (\<lfloor>float_mul (float_sub v (of_int \<lfloor>v\<rfloor>)) 60\<rfloor>, 1),
            (\<lfloor>float_mul (float_sub (float_mul (float_sub v (of_int \<lfloor>v\<rfloor>)) 60)
                              (of_int \<lfloor>float_mul (float_sub v (of_int \<lfloor>v\<rfloor>)) 60\<rfloor>)) 60\<rfloor>, 1))"
proof -
  let ?minutes = "float_mul (float_sub v (of_int \<lfloor>v\<rfloor>)) 60"
  let ?seconds = "float_mul (float_sub ?minutes (of_int \<lfloor>?minutes\<rfloor>)) 60"
  have d: "py_trunc v = \<lfloor>v\<rfloor>"
    using assms by (rule py_trunc_nonneg)
  have "0 \<le> float_sub v (of_int \<lfloor>v\<rfloor>)"
    unfolding float_sub_def by (rule round_double_nonneg) (rule frac_part_nonneg)
  then have minutes: "0 \<le> ?minutes"
    unfolding float_mul_def by (intro round_double_nonneg mult_nonneg_nonneg) simp_all
  then have m: "py_trunc ?minutes = \<lfloor>?minutes\<rfloor>"
    by (rule py_trunc_nonneg)
  have "0 \<le> float_sub ?minutes (of_int \<lfloor>?minutes\<rfloor>)"
    unfolding float_sub_def by (rule round_double_nonneg) (rule frac_part_nonneg)
  then have "0 \<le> ?seconds"
    unfolding float_mul_def by (intro round_double_nonneg mult_nonneg_nonneg) simp_all
  then have s: "py_trunc ?seconds = \<lfloor>?seconds\<rfloor>"
    by (rule py_trunc_nonneg)
  show ?thesis
    by (simp add: convert_to_degrees_def Let_def d m s)
qed

lemma round_double_eval:
  assumes "0 < x" and "floor_log2 x = e" and "pow2 (e - 52) = u"
      and "round_half_even (x / u) = n"
  shows "round_double x = of_int n * u"
  using assms by (simp add: round_double_def Let_def)

lemma eiffel_double: "round_double (488584 / 10000) = 3438104250529979 / 70368744177664"
proof -
  have "round_double (488584 / 10000) = of_int 6876208501059958 * (1 / 140737488355328)"
  proof (rule round_double_eval [where e = 5])
    show "floor_log2 (488584 / 10000) = 5"
      by (simp add: floor_log2_def bit_length_eval)
    show "pow2 (5 - 52) = 1 / 140737488355328"
      by (simp add: pow2_def)
    show "round_half_even (488584 / 10000 / (1 / 140737488355328)) = 6876208501059958"
      by (simp add: round_half_even_def Let_def)
  qed simp
  then show ?thesis by simp
qed


lemma round_half_even_int: "round_half_even (of_int n) = n"
  by (simp add: round_half_even_def)

lemma round_double_exact:
  assumes "0 < x" and "floor_log2 x = e" and "x / pow2 (e - 52) = of_int n"
  shows "round_double x = x"
proof -
  have "round_double x = of_int n * pow2 (e - 52)"
    using assms by (simp add: round_double_def Let_def round_half_even_int)
  also have "\<dots> = x"
    using assms(3) pow2_pos [of "e - 52"] by (simp add: field_simps)
  finally show ?thesis .
qed

lemma eiffel_sub1:
  "float_sub (3438104250529979 / 70368744177664) 48 = 60404530002107 / 70368744177664"
proof -
  have "round_double (60404530002107 / 70368744177664) = 60404530002107 / 70368744177664"
  proof (rule round_double_exact [where e = "- 1" and n = 7731779840269696])
    show "floor_log2 (60404530002107 / 70368744177664) = - 1"
      by (simp add: floor_log2_def bit_length_eval)
    show "60404530002107 / 70368744177664 / pow2 (- 1 - 52) = of_int 7731779840269696"
      by (simp add: pow2_def)
  qed simp
  then show ?thesis
    by (simp add: float_sub_def)
qed

lemma eiffel_mul1:
  "float_mul (60404530002107 / 70368744177664) 60 = 906067950031605 / 17592186044416"
proof -
  have "round_double (906067950031605 / 17592186044416) = 906067950031605 / 17592186044416"
  proof (rule round_double_exact [where e = 5 and n = 7248543600252840])
    show "floor_log2 (906067950031605 / 17592186044416) = 5"
      by (simp add: floor_log2_def bit_length_eval)
    show "906067950031605 / 17592186044416 / pow2 (5 - 52) = of_int 7248543600252840"
      by (simp add: pow2_def)
  qed simp
  then show ?thesis
    by (simp add: float_mul_def)
qed

lemma eiffel_sub2:
  "float_sub (906067950031605 / 17592186044416) 51 = 8866461766389 / 17592186044416"
proof -
  have "round_double (8866461766389 / 17592186044416) = 8866461766389 / 17592186044416"
  proof (rule round_double_exact [where e = "- 1" and n = 4539628424391168])
    show "floor_log2 (8866461766389 / 17592186044416) = - 1"
      by (simp add: floor_log2_def bit_length_eval)
    show "8866461766389 / 17592186044416 / pow2 (- 1 - 52) = of_int 4539628424391168"
      by (simp add: pow2_def)
  qed simp
  then show ?thesis
    by (simp add: float_sub_def)
qed

lemma eiffel_mul2:
  "float_mul (8866461766389 / 17592186044416) 60 = 132996926495835 / 4398046511104"
proof -
  have "round_double (132996926495835 / 4398046511104) = 132996926495835 / 4398046511104"
  proof (rule round_double_exact [where e = 4 and n = 8511803295733440])
    show "floor_log2 (132996926495835 / 4398046511104) = 4"
      by (simp add: floor_log2_def bit_length_eval)
    show "132996926495835 / 4398046511104 / pow2 (4 - 52) = of_int 8511803295733440"
      by (simp add: pow2_def)
  qed simp
  then show ?thesis
    by (simp add: float_mul_def)
qed

theorem convert_to_degrees_floor_witness:
  "(0::real) \<le> round_double (488584 / 10000)
   \<and> convert_to_degrees (round_double (488584 / 10000)) = ((48, 1), (51, 1), (30, 1))"
proof -
  let ?v = "3438104250529979 / 70368744177664 :: real"
  have m: "float_mul (float_sub ?v 48) 60 = 906067950031605 / 17592186044416"
    by (simp only: eiffel_sub1 eiffel_mul1)
  have s: "float_mul (float_sub (906067950031605 / 17592186044416) 51) 60
             = 132996926495835 / 4398046511104"
    by (simp only: eiffel_sub2 eiffel_mul2)
  have "convert_to_degrees ?v = ((48, 1), (51, 1), (30, 1))"
    using convert_to_degrees_floor [of ?v] by (simp add: m s)
  moreover have "(0::real) \<le> ?v"
    by simp
  ultimately show ?thesis
    by (simp only: eiffel_double)
qed

end
